theory Spec2Isabelle
  imports Main
begin

text \<open>
  Two webhook receivers of a marketplace: \<open>app/api/stripe-webhook/route.ts\<close> settles and
  reverses asset sales and records seller readiness,
  \<open>app/api/webhooks/stripe-credits/route.ts\<close> grants purchased credits. Each handler is a
  function from the state of the store to the state after it; the provider's SDK, the
  process environment, the clock and the store's failures are parameters.
\<close>

section \<open>JavaScript values read by the handlers\<close>

text \<open>
  An optional string (\<open>string | undefined | null\<close>) is a \<open>string option\<close>. JavaScript's
  \<open>!s\<close> holds for \<open>undefined\<close>, \<open>null\<close> and the empty string; \<open>truthy\<close> is its negation.
\<close>

definition truthy :: "string option \<Rightarrow> bool" where
  "truthy s = (case s of None \<Rightarrow> False | Some v \<Rightarrow> v \<noteq> [])"

text \<open>
  \<open>parseInt(s, 10)\<close>: leading white space is skipped, one sign is read, then the longest
  run of decimal digits; with no digit the result is \<open>NaN\<close>, here \<open>None\<close>. Numbers are
  exact integers (JavaScript's doubles are, up to \<open>2 ^ 53\<close>).
\<close>

definition is_space :: "char \<Rightarrow> bool" where
  "is_space c = ((of_char c :: nat) = 32 \<or> (9 \<le> (of_char c :: nat) \<and> (of_char c :: nat) \<le> 13))"

definition is_digit :: "char \<Rightarrow> bool" where
  "is_digit c = (48 \<le> (of_char c :: nat) \<and> (of_char c :: nat) \<le> 57)"

definition digits_value :: "string \<Rightarrow> int" where
  "digits_value ds = foldl (\<lambda>a c. 10 * a + (int (of_char c) - 48)) 0 ds"

definition parseInt :: "string \<Rightarrow> int option" where
  "parseInt s =
     (let t = dropWhile is_space s;
          neg = (case t of [] \<Rightarrow> False | c # _ \<Rightarrow> c = CHR ''-'');
          u = (case t of [] \<Rightarrow> [] | c # r \<Rightarrow> if c = CHR ''-'' \<or> c = CHR ''+'' then r else t);
          ds = takeWhile is_digit u
      in if ds = [] then None
         else Some (if neg then - digits_value ds else digits_value ds))"

section \<open>Provider objects\<close>

text \<open>
  The handlers cast \<open>event.data.object\<close> to the type they expect without any check, and
  read a few fields of it. The object is therefore one record holding every field that
  some handler reads; a field the object does not carry is \<open>None\<close> (\<open>undefined\<close>).
  \<open>payment_intent\<close> is either an id or an expanded object, of which only the id is read.
\<close>

datatype pi_ref = PiString string | PiObject string

record stripe_object =
  obj_id :: string
  status :: "string option"
  metadata :: "(string \<rightharpoonup> string) option"
  amount :: int
  amount_received :: "int option"
  application_fee_amount :: "int option"
  amount_total :: "int option"
  payment_intent :: "pi_ref option"
  charges_enabled :: "bool option"
  payouts_enabled :: "bool option"
  currently_due :: "string list option"

record event =
  ev_type :: string
  ev_object :: stripe_object

text \<open>\<open>(o.metadata ?? {})\<close> followed by a property read.\<close>

definition md_get :: "stripe_object \<Rightarrow> string \<Rightarrow> string option" where
  "md_get ob k = (case metadata ob of None \<Rightarrow> None | Some m \<Rightarrow> m k)"

section \<open>The store\<close>

text \<open>
  The tables the two receivers touch, as lists of rows in insertion order. Column names
  carry a prefix for their table: \<open>p\<close> profiles, \<open>l\<close> listings, \<open>a\<close> assets,
  \<open>t\<close> transactions, \<open>po\<close> payouts, \<open>cl\<close> credits ledger. A nullable column is an
  option. Instants are milliseconds; \<open>toISOString\<close> is one-to-one on them.
\<close>

record profile =
  p_id :: string
  p_email :: "string option"
  p_stripe_account_id :: "string option"
  p_stripe_verified :: "bool option"
  p_is_seller :: "bool option"
  p_credits :: "int option"

record listing =
  l_id :: string
  l_source_type :: string
  l_source_id :: string
  l_buyer_id :: "string option"
  l_status :: string
  l_is_active :: bool
  l_updated_at :: nat

record asset =
  a_id :: string
  a_owner_id :: string
  a_source_type :: string
  a_source_id :: string

record transaction =
  t_id :: string
  t_stripe_payment_id :: "string option"
  t_listing_id :: string
  t_buyer_id :: string
  t_status :: string
  t_updated_at :: nat

record payout =
  po_listing_id :: string
  po_stripe_account_id :: string
  po_amount_cents :: int
  po_scheduled_at :: nat
  po_status :: string

record ledger_entry =
  cl_user_id :: string
  cl_payment_intent :: string
  cl_amount_cents :: int
  cl_credits :: int
  cl_reason :: string

text \<open>Every store call of the source, by the place it is made.\<close>

datatype call_site =
    ReadinessUpsert | ReadinessUpdate
  | ListingFetch | AssetUpdate | AssetUpdateLegacy
  | SellerFetch | PayoutInsert
  | TxFailed | ListingReset
  | TxByStripeId | TxFallback | ListingSold
  | LedgerInsert | ProfileRead | ProfileUpsert

text \<open>
  The state is the six tables and the log of the store calls issued so far, reads
  included: a handler that leaves the state as it was has issued no call.
\<close>

record world =
  mkt_profiles :: "profile list"
  mkt_listings :: "listing list"
  user_assets :: "asset list"
  mkt_transactions :: "transaction list"
  mkt_payouts :: "payout list"
  credits_ledger :: "ledger_entry list"
  calls :: "call_site list"

text \<open>
  What surrounds a request: the clock, the process environment, the provider's SDK
  (\<open>constructEvent\<close> and \<open>paymentIntents.retrieve\<close>, \<open>None\<close> when they throw), and
  \<open>fault\<close>, the error code with which the store rejects the call made at a place
  (\<open>None\<close>: the store carries the call out). A rejected call changes no table.
\<close>

record env =
  now :: nat
  fault :: "call_site \<Rightarrow> string option"
  retrieve :: "string \<Rightarrow> stripe_object option"
  constructEvent :: "string \<Rightarrow> string \<Rightarrow> string \<Rightarrow> event option"
  STRIPE_WEBHOOK_SECRET :: "string option"
  STRIPE_CONNECT_WEBHOOK_SECRET :: "string option"
  STRIPE_CREDITS_WEBHOOK_SECRET :: "string option"
  STRIPE_CREDITS_CONNECT_SECRET :: "string option"
  SUPABASE_URL :: "string option"
  NEXT_PUBLIC_SUPABASE_URL :: "string option"
  SUPABASE_SERVICE_KEY :: "string option"

definition logcall :: "call_site \<Rightarrow> world \<Rightarrow> world" where
  "logcall c w = w\<lparr>calls := calls w @ [c]\<rparr>"

text \<open>\<open>update(...).eq(...)\<close>: the rows the filter matches are rewritten in place.\<close>

definition update_where :: "('r \<Rightarrow> bool) \<Rightarrow> ('r \<Rightarrow> 'r) \<Rightarrow> 'r list \<Rightarrow> 'r list" where
  "update_where P f rows = map (\<lambda>r. if P r then f r else r) rows"

text \<open>
  \<open>select(...).single()\<close>: the row when exactly one matches, otherwise the error
  \<open>PGRST116\<close> and no data.
\<close>

definition single :: "'r list \<Rightarrow> string option \<times> 'r option" where
  "single rows = (case rows of [r] \<Rightarrow> (None, Some r) | _ \<Rightarrow> (Some ''PGRST116'', None))"

text \<open>
  The schema is not part of the repository: a row inserted with some columns only is
  taken to have the others null.
\<close>

definition blank_profile :: "string \<Rightarrow> profile" where
  "blank_profile uid =
     \<lparr>p_id = uid, p_email = None, p_stripe_account_id = None, p_stripe_verified = None,
      p_is_seller = None, p_credits = None\<rparr>"

text \<open>\<open>upsert(row, { onConflict: "id" })\<close> on the profiles, \<open>f\<close> setting the columns given.\<close>

definition upsert_profile :: "string \<Rightarrow> (profile \<Rightarrow> profile) \<Rightarrow> profile list \<Rightarrow> profile list" where
  "upsert_profile uid f rows =
     (if filter (\<lambda>p. p_id p = uid) rows = [] then rows @ [f (blank_profile uid)]
      else update_where (\<lambda>p. p_id p = uid) f rows)"

section \<open>The credits receiver\<close>

text \<open>\<open>admin()\<close> throws when the store's URL or key is missing.\<close>

definition admin_credits :: "env \<Rightarrow> bool" where
  "admin_credits e =
     ((truthy (SUPABASE_URL e) \<or> truthy (NEXT_PUBLIC_SUPABASE_URL e)) \<and> truthy (SUPABASE_SERVICE_KEY e))"

text \<open>
  Modelled from the spec: the unique index on the ledger's \<open>payment_intent\<close> column, which
  the source asks for in a comment and the data model of the spec states. An insert that
  would repeat a payment reference is rejected with \<open>23505\<close>.
\<close>

definition ledger_insert :: "env \<Rightarrow> ledger_entry \<Rightarrow> world \<Rightarrow> string option \<times> world" where
  "ledger_insert e row w =
     (let w1 = logcall LedgerInsert w in
      case fault e LedgerInsert of
        Some c \<Rightarrow> (Some c, w1)
      | None \<Rightarrow>
          if filter (\<lambda>r. cl_payment_intent r = cl_payment_intent row) (credits_ledger w) \<noteq> []
          then (Some ''23505'', w1)
          else (None, w1\<lparr>credits_ledger := credits_ledger w @ [row]\<rparr>))"

definition profile_read :: "env \<Rightarrow> string \<Rightarrow> world \<Rightarrow> (string option \<times> profile option) \<times> world" where
  "profile_read e uid w =
     (let w1 = logcall ProfileRead w in
      case fault e ProfileRead of
        Some c \<Rightarrow> ((Some c, None), w1)
      | None \<Rightarrow> (single (filter (\<lambda>p. p_id p = uid) (mkt_profiles w)), w1))"

definition profile_upsert :: "env \<Rightarrow> string \<Rightarrow> int \<Rightarrow> world \<Rightarrow> string option \<times> world" where
  "profile_upsert e uid n w =
     (let w1 = logcall ProfileUpsert w in
      case fault e ProfileUpsert of
        Some c \<Rightarrow> (Some c, w1)
      | None \<Rightarrow>
          (None, w1\<lparr>mkt_profiles :=
             upsert_profile uid (\<lambda>p. p\<lparr>p_credits := Some n\<rparr>) (mkt_profiles w)\<rparr>))"

text \<open>The payment reference of a checkout session (lines 27 to 30).\<close>

definition session_piId :: "stripe_object \<Rightarrow> string" where
  "session_piId session =
     (case payment_intent session of
        Some (PiString s) \<Rightarrow> s
      | Some (PiObject i) \<Rightarrow> if i \<noteq> [] then i else obj_id session
      | None \<Rightarrow> obj_id session)"

text \<open>\<open>parseInt(md.credits ?? "0", 10)\<close>, line 25.\<close>

definition session_credits :: "stripe_object \<Rightarrow> int option" where
  "session_credits session =
     parseInt (case md_get session ''credits'' of None \<Rightarrow> ''0'' | Some s \<Rightarrow> s)"

text \<open>
  The balance as lines 50 to 61 read it: the \<open>credits\<close> column of the user's one row,
  and 0 when the row is missing or the column is null.
\<close>

definition balance :: "profile list \<Rightarrow> string \<Rightarrow> int" where
  "balance rows uid =
     (case snd (single (filter (\<lambda>p. p_id p = uid) rows)) of
        None \<Rightarrow> 0
      | Some p \<Rightarrow> (case p_credits p of None \<Rightarrow> 0 | Some n \<Rightarrow> n))"

text \<open>
  \<open>grantCredits\<close>. An exception (of \<open>admin()\<close>) leaves the handler before any store call;
  the caller catches and logs it, so the result is the state as it was.
\<close>

definition grantCredits :: "env \<Rightarrow> stripe_object \<Rightarrow> world \<Rightarrow> world" where
  "grantCredits e session w =
     (if \<not> admin_credits e then w
      else if md_get session ''kind'' \<noteq> Some ''credits_purchase'' then w
      else
        let userId = md_get session ''userId'';
            credits = session_credits session;
            amount_cents = (case amount_total session of None \<Rightarrow> 0 | Some a \<Rightarrow> a);
            piId = session_piId session
        in case (userId, credits) of
             (Some uid, Some c) \<Rightarrow>
               if uid = [] \<or> c = 0 \<or> c \<le> 0 \<or> piId = [] then w
               else
                 let (ledgerErr, w1) =
                       ledger_insert e
                         \<lparr>cl_user_id = uid, cl_payment_intent = piId, cl_amount_cents = amount_cents,
                          cl_credits = c, cl_reason = ''purchase''\<rparr> w
                 in if ledgerErr \<noteq> None \<and> ledgerErr \<noteq> Some ''23505'' then w1
                    else
                      let ((readErr, prof), w2) = profile_read e uid w1
                      in if readErr \<noteq> None \<and> readErr \<noteq> Some ''PGRST116'' then w2
                         else
                           let current = (case prof of None \<Rightarrow> 0
                                          | Some p \<Rightarrow> (case p_credits p of None \<Rightarrow> 0 | Some n \<Rightarrow> n));
                               next = current + c
                           in snd (profile_upsert e uid next w2)
           | _ \<Rightarrow> w)"

text \<open>
  The credits endpoint. The response is built before the handler runs: the handler is
  queued as a microtask, and the state returned is the one after it has run.
\<close>

datatype response = Text nat string | Json_received_true

record request =
  rawBody :: string
  stripe_signature :: "string option"

definition sig_header :: "request \<Rightarrow> string" where
  "sig_header req = (case stripe_signature req of None \<Rightarrow> [] | Some s \<Rightarrow> s)"

text \<open>
  \<open>try_secret\<close> is one \<open>try\<close> block: \<open>None\<close> when the secret is not set (the
  source throws to skip it) or \<open>constructEvent\<close> throws. \<open>verify_event\<close> is the two
  nested blocks of both endpoints: \<open>Inl\<close> is the error response, \<open>Inr\<close> the
  verified event.
\<close>

definition try_secret :: "env \<Rightarrow> request \<Rightarrow> string option \<Rightarrow> event option" where
  "try_secret e req secret =
     (case secret of
        None \<Rightarrow> None
      | Some s \<Rightarrow> if s = [] then None else constructEvent e (rawBody req) (sig_header req) s)"

definition verify_event :: "env \<Rightarrow> request \<Rightarrow> string option \<Rightarrow> string option \<Rightarrow> response + event" where
  "verify_event e req primary connect =
     (case try_secret e req primary of
        Some ev \<Rightarrow> Inr ev
      | None \<Rightarrow>
          if \<not> truthy connect then Inl (Text 400 ''bad sig'')
          else (case try_secret e req connect of
                  Some ev \<Rightarrow> Inr ev
                | None \<Rightarrow> Inl (Text 400 ''bad sig'')))"

text \<open>The body of the queued microtask, lines 110 to 116.\<close>

definition microtask :: "env \<Rightarrow> event \<Rightarrow> world \<Rightarrow> world" where
  "microtask e ev w =
     (if ev_type ev = ''checkout.session.completed'' then grantCredits e (ev_object ev) w else w)"

definition POST_credits :: "env \<Rightarrow> request \<Rightarrow> world \<Rightarrow> response \<times> world" where
  "POST_credits e req w =
     (let primary = STRIPE_CREDITS_WEBHOOK_SECRET e;
          connect = STRIPE_CREDITS_CONNECT_SECRET e
      in if \<not> truthy primary \<and> \<not> truthy connect then (Text 500 ''no secret'', w)
         else case verify_event e req primary connect of
                Inl r \<Rightarrow> (r, w)
              | Inr ev \<Rightarrow> (Json_received_true, microtask e ev w))"

section \<open>The sale receiver\<close>

subsection \<open>Seller readiness\<close>

text \<open>Lines 22 to 25: \<open>=== true\<close> fails on an absent flag, \<open>?? []\<close> reads an absent list as empty.\<close>

definition verified :: "stripe_object \<Rightarrow> bool" where
  "verified acct =
     (charges_enabled acct = Some True \<and> payouts_enabled acct = Some True \<and>
      length (case currently_due acct of None \<Rightarrow> [] | Some ds \<Rightarrow> ds) = 0)"

definition readiness_upsert :: "env \<Rightarrow> string \<Rightarrow> string \<Rightarrow> bool \<Rightarrow> world \<Rightarrow> world" where
  "readiness_upsert e uid acctId v w =
     (let w1 = logcall ReadinessUpsert w in
      case fault e ReadinessUpsert of
        Some c \<Rightarrow> w1
      | None \<Rightarrow>
          w1\<lparr>mkt_profiles :=
            upsert_profile uid
              (\<lambda>p. p\<lparr>p_email := None, p_stripe_account_id := Some acctId,
                     p_stripe_verified := Some v, p_is_seller := Some v\<rparr>)
              (mkt_profiles w)\<rparr>)"

definition readiness_update :: "env \<Rightarrow> string \<Rightarrow> bool \<Rightarrow> world \<Rightarrow> world" where
  "readiness_update e acctId v w =
     (let w1 = logcall ReadinessUpdate w in
      case fault e ReadinessUpdate of
        Some c \<Rightarrow> w1
      | None \<Rightarrow>
          w1\<lparr>mkt_profiles :=
            update_where (\<lambda>p. p_stripe_account_id p = Some acctId)
              (\<lambda>p. p\<lparr>p_stripe_verified := Some v, p_is_seller := Some v\<rparr>)
              (mkt_profiles w)\<rparr>)"

definition markSellerReadiness :: "env \<Rightarrow> stripe_object \<Rightarrow> world \<Rightarrow> world" where
  "markSellerReadiness e acct w =
     (let v = verified acct;
          w1 = (case md_get acct ''user_id'' of
                  None \<Rightarrow> w
                | Some uid \<Rightarrow> if uid = [] then w else readiness_upsert e uid (obj_id acct) v w)
      in readiness_update e (obj_id acct) v w1)"

subsection \<open>Ownership transfer and payout\<close>

definition listing_fetch :: "env \<Rightarrow> string \<Rightarrow> world \<Rightarrow> (string option \<times> listing option) \<times> world" where
  "listing_fetch e listingId w =
     (let w1 = logcall ListingFetch w in
      case fault e ListingFetch of
        Some c \<Rightarrow> ((Some c, None), w1)
      | None \<Rightarrow> (single (filter (\<lambda>l. l_id l = listingId) (mkt_listings w)), w1))"

definition asset_update :: "env \<Rightarrow> call_site \<Rightarrow> (asset \<Rightarrow> bool) \<Rightarrow> string \<Rightarrow> world \<Rightarrow> world" where
  "asset_update e site P buyerId w =
     (let w1 = logcall site w in
      case fault e site of
        Some c \<Rightarrow> w1
      | None \<Rightarrow> w1\<lparr>user_assets := update_where P (\<lambda>a. a\<lparr>a_owner_id := buyerId\<rparr>) (user_assets w)\<rparr>)"

definition transferAssetToBuyer :: "env \<Rightarrow> string \<Rightarrow> string \<Rightarrow> world \<Rightarrow> world" where
  "transferAssetToBuyer e listingId buyerId w =
     (case listing_fetch e listingId w of
        ((None, Some l), w1) \<Rightarrow>
          if l_source_type l = ''asset''
          then asset_update e AssetUpdate (\<lambda>a. a_id a = l_source_id l) buyerId w1
          else asset_update e AssetUpdateLegacy
                 (\<lambda>a. a_source_type a = ''uploaded_image'' \<and> a_source_id a = l_source_id l) buyerId w1
      | (_, w1) \<Rightarrow> w1)"

definition seller_fetch :: "env \<Rightarrow> string \<Rightarrow> world \<Rightarrow> (string option \<times> profile option) \<times> world" where
  "seller_fetch e sellerId w =
     (let w1 = logcall SellerFetch w in
      case fault e SellerFetch of
        Some c \<Rightarrow> ((Some c, None), w1)
      | None \<Rightarrow> (single (filter (\<lambda>p. p_id p = sellerId) (mkt_profiles w)), w1))"

definition payout_insert :: "env \<Rightarrow> payout \<Rightarrow> world \<Rightarrow> world" where
  "payout_insert e row w =
     (let w1 = logcall PayoutInsert w in
      case fault e PayoutInsert of
        Some c \<Rightarrow> w1
      | None \<Rightarrow> w1\<lparr>mkt_payouts := mkt_payouts w @ [row]\<rparr>)"

text \<open>
  \<open>queuePayoutIfPossible\<close>. The optional number \<open>netCents\<close> is an option; \<open>!netCents\<close>
  holds when it is absent or zero.
\<close>

definition queuePayoutIfPossible :: "env \<Rightarrow> string \<Rightarrow> string option \<Rightarrow> int option \<Rightarrow> world \<Rightarrow> world" where
  "queuePayoutIfPossible e listingId sellerId netCents w =
     (case (sellerId, netCents) of
        (Some sid, Some n) \<Rightarrow>
          if sid = [] \<or> n = 0 \<or> n \<le> 0 then w
          else
            (case seller_fetch e sid w of
               ((Some c, _), w1) \<Rightarrow> w1
             | ((None, seller), w1) \<Rightarrow>
                 (case seller of
                    None \<Rightarrow> w1
                  | Some p \<Rightarrow>
                      (case p_stripe_account_id p of
                         None \<Rightarrow> w1
                       | Some acctId \<Rightarrow>
                           if acctId = [] then w1
                           else payout_insert e
                                  \<lparr>po_listing_id = listingId, po_stripe_account_id = acctId,
                                   po_amount_cents = n, po_scheduled_at = now e + 10 * 60 * 1000,
                                   po_status = ''pending''\<rparr> w1)))
      | _ \<Rightarrow> w)"

subsection \<open>Reversal\<close>

text \<open>
  \<open>.eq("buyer_id", buyerId ?? null)\<close>: an equality filter against \<open>null\<close> holds of no
  row, as in SQL.
\<close>

definition eq_nullable :: "string option \<Rightarrow> string option \<Rightarrow> bool" where
  "eq_nullable col v = (case v of None \<Rightarrow> False | Some b \<Rightarrow> col = Some b)"

definition tx_failed :: "env \<Rightarrow> string \<Rightarrow> world \<Rightarrow> world" where
  "tx_failed e stripeId w =
     (let w1 = logcall TxFailed w in
      case fault e TxFailed of
        Some c \<Rightarrow> w1
      | None \<Rightarrow>
          w1\<lparr>mkt_transactions :=
            update_where (\<lambda>t. t_stripe_payment_id t = Some stripeId)
              (\<lambda>t. t\<lparr>t_status := ''failed'', t_updated_at := now e\<rparr>)
              (mkt_transactions w)\<rparr>)"

definition listing_reset :: "env \<Rightarrow> string \<Rightarrow> string option \<Rightarrow> world \<Rightarrow> world" where
  "listing_reset e listingId buyerId w =
     (let w1 = logcall ListingReset w in
      case fault e ListingReset of
        Some c \<Rightarrow> w1
      | None \<Rightarrow>
          w1\<lparr>mkt_listings :=
            update_where (\<lambda>l. l_id l = listingId \<and> eq_nullable (l_buyer_id l) buyerId)
              (\<lambda>l. l\<lparr>l_buyer_id := None, l_status := ''active'', l_is_active := True,
                     l_updated_at := now e\<rparr>)
              (mkt_listings w)\<rparr>)"

definition markTxFailed :: "env \<Rightarrow> string \<Rightarrow> string option \<Rightarrow> string option \<Rightarrow> world \<Rightarrow> world" where
  "markTxFailed e stripeId listingId buyerId w =
     (let w1 = tx_failed e stripeId w in
      case listingId of
        None \<Rightarrow> w1
      | Some lid \<Rightarrow> if lid = [] then w1 else listing_reset e lid buyerId w1)"

definition handlePaymentIntentFailed :: "env \<Rightarrow> stripe_object \<Rightarrow> world \<Rightarrow> world" where
  "handlePaymentIntentFailed e pi w =
     markTxFailed e (obj_id pi) (md_get pi ''mkt_listing_id'') (md_get pi ''mkt_buyer_id'') w"

text \<open>Line 212: the payment id of a charge, absent when the charge has no reference.\<close>

definition charge_piId :: "stripe_object \<Rightarrow> string option" where
  "charge_piId ch =
     (case payment_intent ch of
        Some (PiString s) \<Rightarrow> Some s
      | Some (PiObject i) \<Rightarrow> Some i
      | None \<Rightarrow> None)"

definition handleChargeRefunded :: "env \<Rightarrow> stripe_object \<Rightarrow> world \<Rightarrow> world" where
  "handleChargeRefunded e ch w =
     markTxFailed e (case charge_piId ch of None \<Rightarrow> [] | Some s \<Rightarrow> s) None None w"

subsection \<open>Settlement\<close>

text \<open>Lines 159 to 161.\<close>

definition netCents :: "stripe_object \<Rightarrow> int" where
  "netCents fresh =
     (let amountCents = (case amount_received fresh of None \<Rightarrow> amount fresh | Some a \<Rightarrow> a);
          platformFeeCents = (case application_fee_amount fresh of None \<Rightarrow> 0 | Some f \<Rightarrow> f)
      in max 0 (amountCents - platformFeeCents))"

text \<open>
  Lines 164 to 168: the update by payment id, and the ids of the rows it changed
  (\<open>None\<close> when the store rejects the call).
\<close>

definition tx_by_stripe_id :: "env \<Rightarrow> string \<Rightarrow> world \<Rightarrow> string list option \<times> world" where
  "tx_by_stripe_id e stripeId w =
     (let w1 = logcall TxByStripeId w in
      case fault e TxByStripeId of
        Some c \<Rightarrow> (None, w1)
      | None \<Rightarrow>
          (Some (map t_id (filter (\<lambda>t. t_stripe_payment_id t = Some stripeId) (mkt_transactions w))),
           w1\<lparr>mkt_transactions :=
             update_where (\<lambda>t. t_stripe_payment_id t = Some stripeId)
               (\<lambda>t. t\<lparr>t_status := ''completed'', t_updated_at := now e\<rparr>)
               (mkt_transactions w)\<rparr>))"

text \<open>Lines 172 to 181.\<close>

definition tx_fallback :: "env \<Rightarrow> string \<Rightarrow> string \<Rightarrow> string \<Rightarrow> world \<Rightarrow> world" where
  "tx_fallback e stripeId listingId buyerId w =
     (let w1 = logcall TxFallback w in
      case fault e TxFallback of
        Some c \<Rightarrow> w1
      | None \<Rightarrow>
          w1\<lparr>mkt_transactions :=
            update_where
              (\<lambda>t. t_listing_id t = listingId \<and> t_buyer_id t = buyerId \<and> t_status t = ''pending'')
              (\<lambda>t. t\<lparr>t_status := ''completed'', t_stripe_payment_id := Some stripeId,
                     t_updated_at := now e\<rparr>)
              (mkt_transactions w)\<rparr>)"

text \<open>Step 1 of the settlement, lines 163 to 183: \<open>!tx1?.length\<close> decides the fallback.\<close>

definition complete_transaction :: "env \<Rightarrow> string \<Rightarrow> string \<Rightarrow> string \<Rightarrow> world \<Rightarrow> world" where
  "complete_transaction e stripeId listingId buyerId w =
     (case tx_by_stripe_id e stripeId w of
        (tx1, w1) \<Rightarrow>
          if (case tx1 of None \<Rightarrow> True | Some ids \<Rightarrow> length ids = 0)
          then tx_fallback e stripeId listingId buyerId w1
          else w1)"

text \<open>Step 2, lines 186 to 194.\<close>

definition listing_sold :: "env \<Rightarrow> string \<Rightarrow> string \<Rightarrow> world \<Rightarrow> world" where
  "listing_sold e listingId buyerId w =
     (let w1 = logcall ListingSold w in
      case fault e ListingSold of
        Some c \<Rightarrow> w1
      | None \<Rightarrow>
          w1\<lparr>mkt_listings :=
            update_where (\<lambda>l. l_id l = listingId)
              (\<lambda>l. l\<lparr>l_buyer_id := Some buyerId, l_status := ''sold'', l_is_active := False,
                     l_updated_at := now e\<rparr>)
              (mkt_listings w)\<rparr>)"

text \<open>
  \<open>handlePaymentIntentSucceeded\<close>. When \<open>retrieve\<close> throws, the handler is left before
  any store call and the endpoint catches the exception.
\<close>

definition handlePaymentIntentSucceeded :: "env \<Rightarrow> stripe_object \<Rightarrow> world \<Rightarrow> world" where
  "handlePaymentIntentSucceeded e pi w =
     (case retrieve e (obj_id pi) of
        None \<Rightarrow> w
      | Some fresh \<Rightarrow>
          if status fresh \<noteq> Some ''succeeded'' then w
          else
            let listingId = md_get fresh ''mkt_listing_id'';
                buyerId = md_get fresh ''mkt_buyer_id'';
                sellerId = md_get fresh ''mkt_seller_id''
            in (case (listingId, buyerId) of
                  (Some lid, Some bid) \<Rightarrow>
                    if lid = [] \<or> bid = [] then w
                    else
                      let stripeId = obj_id fresh;
                          w1 = complete_transaction e stripeId lid bid w;
                          w2 = listing_sold e lid bid w1;
                          w3 = transferAssetToBuyer e lid bid w2
                      in queuePayoutIfPossible e lid sellerId (Some (netCents fresh)) w3
                | _ \<Rightarrow> w))"

subsection \<open>The endpoint\<close>

text \<open>The payment id of an async-payment-failed checkout session, lines 256 to 258.\<close>

definition async_failed_id :: "stripe_object \<Rightarrow> string" where
  "async_failed_id s =
     (case payment_intent s of
        Some (PiString p) \<Rightarrow> p
      | Some (PiObject i) \<Rightarrow> i
      | None \<Rightarrow> obj_id s)"

text \<open>The \<open>switch\<close> on the event type, lines 238 to 279.\<close>

definition dispatch :: "env \<Rightarrow> event \<Rightarrow> world \<Rightarrow> world" where
  "dispatch e ev w =
     (let ty = ev_type ev; ob = ev_object ev in
      if ty = ''payment_intent.succeeded'' then handlePaymentIntentSucceeded e ob w
      else if ty = ''payment_intent.payment_failed'' \<or> ty = ''payment_intent.canceled''
      then handlePaymentIntentFailed e ob w
      else if ty = ''checkout.session.async_payment_failed''
      then markTxFailed e (async_failed_id ob) (md_get ob ''mkt_listing_id'')
             (md_get ob ''mkt_buyer_id'') w
      else if ty = ''charge.refunded'' then handleChargeRefunded e ob w
      else if ty = ''account.updated'' \<or> ty = ''capability.updated''
                \<or> ty = ''account.application.authorized''
      then markSellerReadiness e ob w
      else w)"

text \<open>The \<open>case\<close> labels of that \<open>switch\<close>.\<close>

definition dispatch_table :: "string list" where
  "dispatch_table =
     [''payment_intent.succeeded'', ''payment_intent.payment_failed'', ''payment_intent.canceled'',
      ''checkout.session.async_payment_failed'', ''charge.refunded'', ''account.updated'',
      ''capability.updated'', ''account.application.authorized'']"

definition POST :: "env \<Rightarrow> request \<Rightarrow> world \<Rightarrow> response \<times> world" where
  "POST e req w =
     (let primary = STRIPE_WEBHOOK_SECRET e;
          connect = STRIPE_CONNECT_WEBHOOK_SECRET e
      in if \<not> truthy primary \<and> \<not> truthy connect then (Text 500 ''webhook secret missing'', w)
         else case verify_event e req primary connect of
                Inl r \<Rightarrow> (r, w)
              | Inr ev \<Rightarrow> (Json_received_true, dispatch e ev w))"

section \<open>Concrete inputs\<close>

definition demo_env :: env where
  "demo_env =
     \<lparr>now = 1000, fault = (\<lambda>_. None), retrieve = (\<lambda>_. None), constructEvent = (\<lambda>_ _ _. None),
      STRIPE_WEBHOOK_SECRET = None, STRIPE_CONNECT_WEBHOOK_SECRET = None,
      STRIPE_CREDITS_WEBHOOK_SECRET = None, STRIPE_CREDITS_CONNECT_SECRET = None,
      SUPABASE_URL = Some ''https://db'', NEXT_PUBLIC_SUPABASE_URL = None,
      SUPABASE_SERVICE_KEY = Some ''key''\<rparr>"

definition empty_world :: world where
  "empty_world =
     \<lparr>mkt_profiles = [], mkt_listings = [], user_assets = [], mkt_transactions = [],
      mkt_payouts = [], credits_ledger = [], calls = []\<rparr>"

definition blank_object :: "string \<Rightarrow> stripe_object" where
  "blank_object i =
     \<lparr>obj_id = i, status = None, metadata = None, amount = 0, amount_received = None,
      application_fee_amount = None, amount_total = None, payment_intent = None,
      charges_enabled = None, payouts_enabled = None, currently_due = None\<rparr>"

definition demo_session :: stripe_object where
  "demo_session =
     (blank_object ''cs_1'')
       \<lparr>metadata := Some [''kind'' \<mapsto> ''credits_purchase'', ''userId'' \<mapsto> ''U1'', ''credits'' \<mapsto> ''50''],
        amount_total := Some 500, payment_intent := Some (PiString ''pi_1'')\<rparr>"

definition read_fault_env :: env where
  "read_fault_env = demo_env\<lparr>fault := (\<lambda>c. if c = ProfileRead then Some ''57014'' else None)\<rparr>"

definition demo_account :: stripe_object where
  "demo_account =
     (blank_object ''acct_1'')
       \<lparr>metadata := Some [''user_id'' \<mapsto> ''U3''], charges_enabled := Some True,
        payouts_enabled := Some True, currently_due := Some []\<rparr>"

definition seller_world :: world where
  "seller_world =
     empty_world
       \<lparr>mkt_profiles :=
          [\<lparr>p_id = ''U3'', p_email = Some ''s@x'', p_stripe_account_id = Some ''acct_1'',
            p_stripe_verified = Some True, p_is_seller = Some True, p_credits = Some 7\<rparr>]\<rparr>"

definition sale_world :: world where
  "sale_world =
     empty_world
       \<lparr>mkt_profiles :=
          [\<lparr>p_id = ''U3'', p_email = Some ''s@x'', p_stripe_account_id = Some ''acct_1'',
            p_stripe_verified = Some True, p_is_seller = Some True, p_credits = None\<rparr>],
        mkt_listings :=
          [\<lparr>l_id = ''L1'', l_source_type = ''asset'', l_source_id = ''A1'', l_buyer_id = Some ''U2'',
            l_status = ''sold'', l_is_active = False, l_updated_at = 5\<rparr>],
        user_assets :=
          [\<lparr>a_id = ''A1'', a_owner_id = ''U3'', a_source_type = ''generated'', a_source_id = ''G1''\<rparr>],
        mkt_transactions :=
          [\<lparr>t_id = ''T1'', t_stripe_payment_id = Some ''pi_1'', t_listing_id = ''L1'',
            t_buyer_id = ''U2'', t_status = ''pending'', t_updated_at = 5\<rparr>]\<rparr>"

definition demo_charge :: stripe_object where
  "demo_charge =
     (blank_object ''ch_1'')
       \<lparr>metadata := Some [''mkt_listing_id'' \<mapsto> ''L1'', ''mkt_buyer_id'' \<mapsto> ''U2''],
        payment_intent := Some (PiString ''pi_1'')\<rparr>"

definition demo_payment :: stripe_object where
  "demo_payment =
     (blank_object ''pi_1'')
       \<lparr>status := Some ''succeeded'',
        metadata := Some [''mkt_listing_id'' \<mapsto> ''L1'', ''mkt_buyer_id'' \<mapsto> ''U2'',
                          ''mkt_seller_id'' \<mapsto> ''U3''],
        amount := 1000, amount_received := Some 1000, application_fee_amount := Some 100\<rparr>"

definition provider_env :: "stripe_object \<Rightarrow> env" where
  "provider_env fresh = demo_env\<lparr>retrieve := (\<lambda>i. if i = obj_id fresh then Some fresh else None)\<rparr>"

definition backfill_world :: world where
  "backfill_world =
     sale_world
       \<lparr>mkt_transactions :=
          [\<lparr>t_id = ''T1'', t_stripe_payment_id = None, t_listing_id = ''L1'',
            t_buyer_id = ''U2'', t_status = ''pending'', t_updated_at = 5\<rparr>]\<rparr>"

definition signing_env :: env where
  "signing_env =
     demo_env
       \<lparr>constructEvent :=
          (\<lambda>raw sg secret.
             if sg = ''t=1,v1=ok'' \<and> (secret = ''whsec_connect'' \<or> secret = ''whsec_credits'')
             then Some \<lparr>ev_type = raw, ev_object = demo_charge\<rparr> else None),
        STRIPE_WEBHOOK_SECRET := Some ''whsec_platform'',
        STRIPE_CONNECT_WEBHOOK_SECRET := Some ''whsec_connect'',
        STRIPE_CREDITS_WEBHOOK_SECRET := Some ''whsec_credits''\<rparr>"

definition signed_request :: "string \<Rightarrow> request" where
  "signed_request body = \<lparr>rawBody = body, stripe_signature = Some ''t=1,v1=ok''\<rparr>"

section \<open>Properties\<close>

subsection \<open>Auxiliary facts\<close>

lemmas js_defs = truthy_def md_get_def parseInt_def is_space_def is_digit_def digits_value_def
lemmas store_defs = logcall_def update_where_def single_def blank_profile_def upsert_profile_def
lemmas credits_defs = admin_credits_def ledger_insert_def profile_read_def profile_upsert_def
  session_piId_def session_credits_def balance_def grantCredits_def
lemmas demo_defs = demo_env_def empty_world_def blank_object_def

lemma demo_session_facts:
  "admin_credits demo_env" "md_get demo_session ''kind'' = Some ''credits_purchase''"
  "md_get demo_session ''userId'' = Some ''U1''" "session_credits demo_session = Some 50"
  "session_piId demo_session = ''pi_1''"
  by (simp_all add: demo_session_def demo_defs js_defs admin_credits_def session_credits_def
      session_piId_def)

lemma filter_update_where_same:
  "filter (\<lambda>p. p_id p = uid) (update_where (\<lambda>p. p_id p = uid) (\<lambda>p. p\<lparr>p_credits := Some n\<rparr>) rows)
   = map (\<lambda>p. p\<lparr>p_credits := Some n\<rparr>) (filter (\<lambda>p. p_id p = uid) rows)"
  by (induction rows) (auto simp: update_where_def)

lemma balance_upsert:
  assumes "length (filter (\<lambda>p. p_id p = uid) rows) \<le> 1"
  shows "balance (upsert_profile uid (\<lambda>p. p\<lparr>p_credits := Some n\<rparr>) rows) uid = n"
proof (cases "filter (\<lambda>p. p_id p = uid) rows")
  case Nil
  then show ?thesis
    by (simp add: balance_def upsert_profile_def single_def blank_profile_def)
next
  case (Cons p ps)
  with assms have "ps = []" by simp
  with Cons show ?thesis
    by (simp add: balance_def upsert_profile_def single_def filter_update_where_same)
qed

lemma key_upsert:
  assumes "length (filter (\<lambda>p. p_id p = uid) rows) \<le> 1"
  shows "length (filter (\<lambda>p. p_id p = uid) (upsert_profile uid (\<lambda>p. p\<lparr>p_credits := Some n\<rparr>) rows)) \<le> 1"
proof (cases "filter (\<lambda>p. p_id p = uid) rows")
  case Nil
  then show ?thesis
    by (simp add: upsert_profile_def blank_profile_def)
next
  case (Cons p ps)
  with assms show ?thesis
    by (simp add: upsert_profile_def filter_update_where_same)
qed

lemma grantCredits_run:
  assumes "admin_credits e" "md_get s ''kind'' = Some ''credits_purchase''"
    "md_get s ''userId'' = Some uid" "uid \<noteq> []" "session_credits s = Some c" "0 < c"
    "session_piId s \<noteq> []"
    "fault e LedgerInsert = None" "fault e ProfileRead = None" "fault e ProfileUpsert = None"
  shows "grantCredits e s w =
     w\<lparr>calls := calls w @ [LedgerInsert, ProfileRead, ProfileUpsert],
       credits_ledger :=
         (if filter (\<lambda>r. cl_payment_intent r = session_piId s) (credits_ledger w) \<noteq> []
          then credits_ledger w
          else credits_ledger w @
            [\<lparr>cl_user_id = uid, cl_payment_intent = session_piId s,
              cl_amount_cents = (case amount_total s of None \<Rightarrow> 0 | Some a \<Rightarrow> a),
              cl_credits = c, cl_reason = ''purchase''\<rparr>]),
       mkt_profiles := upsert_profile uid (\<lambda>p. p\<lparr>p_credits := Some (balance (mkt_profiles w) uid + c)\<rparr>) (mkt_profiles w)\<rparr>"
  using assms
  by (simp add: grantCredits_def ledger_insert_def profile_read_def profile_upsert_def logcall_def balance_def
      single_def Let_def split: list.splits option.splits)

subsection \<open>Credit grants\<close>

text \<open>
  C1, as amended. A checkout session tagged as a credits purchase is handled twice, the
  store carrying out every call, from a state whose ledger has no row for the payment
  reference and whose profiles hold at most one row for the user. The ledger ends with
  exactly one row for that reference, added by the first run. The second run's insert is
  rejected with the uniqueness conflict, and the handler goes on all the same: it reads
  the balance and writes it back increased, so the balance has grown by the credit count
  after one run and by twice the credit count after two.
\<close>

theorem grantCredits_twice:
  assumes "admin_credits e" "md_get s ''kind'' = Some ''credits_purchase''"
    "md_get s ''userId'' = Some uid" "uid \<noteq> []" "session_credits s = Some c" "0 < c"
    "session_piId s \<noteq> []"
    "fault e LedgerInsert = None" "fault e ProfileRead = None" "fault e ProfileUpsert = None"
    "filter (\<lambda>r. cl_payment_intent r = session_piId s) (credits_ledger w) = []"
    "length (filter (\<lambda>p. p_id p = uid) (mkt_profiles w)) \<le> 1"
  shows "credits_ledger (grantCredits e s (grantCredits e s w)) =
           credits_ledger w @
             [\<lparr>cl_user_id = uid, cl_payment_intent = session_piId s,
               cl_amount_cents = (case amount_total s of None \<Rightarrow> 0 | Some a \<Rightarrow> a),
               cl_credits = c, cl_reason = ''purchase''\<rparr>]
       \<and> length (filter (\<lambda>r. cl_payment_intent r = session_piId s)
            (credits_ledger (grantCredits e s (grantCredits e s w)))) = 1
       \<and> balance (mkt_profiles (grantCredits e s w)) uid = balance (mkt_profiles w) uid + c
       \<and> balance (mkt_profiles (grantCredits e s (grantCredits e s w))) uid =
           balance (mkt_profiles w) uid + 2 * c
       \<and> calls (grantCredits e s (grantCredits e s w)) =
           calls w @ [LedgerInsert, ProfileRead, ProfileUpsert, LedgerInsert, ProfileRead, ProfileUpsert]"
proof -
  let ?w1 = "grantCredits e s w"
  note run = grantCredits_run [OF assms(1-10)]
  have l1: "credits_ledger ?w1 = credits_ledger w @
             [\<lparr>cl_user_id = uid, cl_payment_intent = session_piId s,
               cl_amount_cents = (case amount_total s of None \<Rightarrow> 0 | Some a \<Rightarrow> a),
               cl_credits = c, cl_reason = ''purchase''\<rparr>]"
    using assms(11) by (simp add: run [of w])
  have p1: "mkt_profiles ?w1 =
      upsert_profile uid (\<lambda>p. p\<lparr>p_credits := Some (balance (mkt_profiles w) uid + c)\<rparr>) (mkt_profiles w)"
    by (simp add: run [of w])
  have c1: "calls ?w1 = calls w @ [LedgerInsert, ProfileRead, ProfileUpsert]"
    by (simp add: run [of w])
  have b1: "balance (mkt_profiles ?w1) uid = balance (mkt_profiles w) uid + c"
    unfolding p1 by (rule balance_upsert [OF assms(12)])
  have k1: "length (filter (\<lambda>p. p_id p = uid) (mkt_profiles ?w1)) \<le> 1"
    unfolding p1 by (rule key_upsert [OF assms(12)])
  have l2: "credits_ledger (grantCredits e s ?w1) = credits_ledger ?w1"
    by (simp add: run [of ?w1] l1)
  have p2: "mkt_profiles (grantCredits e s ?w1) =
      upsert_profile uid (\<lambda>p. p\<lparr>p_credits := Some (balance (mkt_profiles ?w1) uid + c)\<rparr>) (mkt_profiles ?w1)"
    by (simp add: run [of ?w1])
  have b2: "balance (mkt_profiles (grantCredits e s ?w1)) uid = balance (mkt_profiles ?w1) uid + c"
    unfolding p2 by (rule balance_upsert [OF k1])
  have c2: "calls (grantCredits e s ?w1) = calls ?w1 @ [LedgerInsert, ProfileRead, ProfileUpsert]"
    by (simp add: run [of ?w1])
  show ?thesis
    using l1 l2 b1 b2 c1 c2 assms(11) by simp
qed

theorem grantCredits_twice_witness:
  "credits_ledger (grantCredits demo_env demo_session (grantCredits demo_env demo_session empty_world)) =
     [\<lparr>cl_user_id = ''U1'', cl_payment_intent = ''pi_1'', cl_amount_cents = 500,
       cl_credits = 50, cl_reason = ''purchase''\<rparr>]
   \<and> balance (mkt_profiles (grantCredits demo_env demo_session (grantCredits demo_env demo_session empty_world))) ''U1'' = 100"
proof -
  have f: "fault demo_env LedgerInsert = None" "fault demo_env ProfileRead = None"
    "fault demo_env ProfileUpsert = None"
    by (simp_all add: demo_env_def)
  have w: "filter (\<lambda>r. cl_payment_intent r = session_piId demo_session) (credits_ledger empty_world) = []"
    "length (filter (\<lambda>p. p_id p = ''U1'') (mkt_profiles empty_world)) \<le> 1"
    "balance (mkt_profiles empty_world) ''U1'' = 0" "credits_ledger empty_world = []"
    "amount_total demo_session = Some 500"
    by (simp_all add: empty_world_def balance_def single_def demo_session_def blank_object_def)
  have "''U1'' \<noteq> []" "(0::int) < 50" "session_piId demo_session \<noteq> []"
    by (simp_all add: demo_session_facts)
  from grantCredits_twice [OF demo_session_facts(1-3) this(1) demo_session_facts(4) this(2,3) f w(1,2)]
  show ?thesis by (simp add: w demo_session_facts)
qed

theorem grantCredits_twice_counterexample:
  "session_credits demo_session = Some 50
   \<and> balance (mkt_profiles empty_world) ''U1'' = 0
   \<and> balance (mkt_profiles (grantCredits demo_env demo_session (grantCredits demo_env demo_session empty_world))) ''U1'' = 100
   \<and> balance (mkt_profiles (grantCredits demo_env demo_session (grantCredits demo_env demo_session empty_world))) ''U1''
       \<noteq> balance (mkt_profiles empty_world) ''U1'' + 50
   \<and> calls (grantCredits demo_env demo_session (grantCredits demo_env demo_session empty_world)) =
       [LedgerInsert, ProfileRead, ProfileUpsert, LedgerInsert, ProfileRead, ProfileUpsert]"
  by (simp add: demo_session_def demo_defs js_defs store_defs credits_defs)

text \<open>
  C10. For a credits purchase whose ledger insert does not abort the grant: when no
  profile row exists for the user, the balance read returns the missing-row code
  \<open>PGRST116\<close>, the balance counts as 0 and the upsert adds a profile row whose credits
  are the granted count; when the read fails with any other code, the profiles are left
  as they were and no upsert is issued.
\<close>

theorem grantCredits_missing_profile:
  assumes "admin_credits e" "md_get s ''kind'' = Some ''credits_purchase''"
    "md_get s ''userId'' = Some uid" "uid \<noteq> []" "session_credits s = Some c" "0 < c"
    "session_piId s \<noteq> []"
    "fault e LedgerInsert = None \<or> fault e LedgerInsert = Some ''23505''"
  shows "(filter (\<lambda>p. p_id p = uid) (mkt_profiles w) = []
            \<and> (fault e ProfileRead = None \<or> fault e ProfileRead = Some ''PGRST116'')
            \<and> fault e ProfileUpsert = None \<longrightarrow>
          fst (profile_read e uid w) = (Some ''PGRST116'', None)
          \<and> mkt_profiles (grantCredits e s w) =
              mkt_profiles w @ [(blank_profile uid)\<lparr>p_credits := Some c\<rparr>]
          \<and> balance (mkt_profiles (grantCredits e s w)) uid = c)
       \<and> (\<forall>code. fault e ProfileRead = Some code \<and> code \<noteq> ''PGRST116'' \<longrightarrow>
            mkt_profiles (grantCredits e s w) = mkt_profiles w
            \<and> calls (grantCredits e s w) = calls w @ [LedgerInsert, ProfileRead])"
proof (intro conjI impI allI)
  assume a: "filter (\<lambda>p. p_id p = uid) (mkt_profiles w) = []
            \<and> (fault e ProfileRead = None \<or> fault e ProfileRead = Some ''PGRST116'')
            \<and> fault e ProfileUpsert = None"
  from a show "fst (profile_read e uid w) = (Some ''PGRST116'', None)"
    by (auto simp: profile_read_def single_def logcall_def)
  from a assms show p: "mkt_profiles (grantCredits e s w) =
              mkt_profiles w @ [(blank_profile uid)\<lparr>p_credits := Some c\<rparr>]"
    by (auto simp: grantCredits_def ledger_insert_def profile_read_def profile_upsert_def
        logcall_def single_def upsert_profile_def Let_def)
  from a show "balance (mkt_profiles (grantCredits e s w)) uid = c"
    unfolding p by (simp add: balance_def single_def blank_profile_def)
next
  fix code
  assume b: "fault e ProfileRead = Some code \<and> code \<noteq> ''PGRST116''"
  from b assms show "mkt_profiles (grantCredits e s w) = mkt_profiles w"
    by (auto simp: grantCredits_def ledger_insert_def profile_read_def logcall_def Let_def)
  from b assms show "calls (grantCredits e s w) = calls w @ [LedgerInsert, ProfileRead]"
    by (auto simp: grantCredits_def ledger_insert_def profile_read_def logcall_def Let_def)
qed

theorem grantCredits_missing_profile_witness:
  "mkt_profiles (grantCredits demo_env demo_session empty_world) =
     [\<lparr>p_id = ''U1'', p_email = None, p_stripe_account_id = None, p_stripe_verified = None,
       p_is_seller = None, p_credits = Some 50\<rparr>]
   \<and> mkt_profiles (grantCredits read_fault_env demo_session empty_world) = []
   \<and> calls (grantCredits read_fault_env demo_session empty_world) = [LedgerInsert, ProfileRead]"
proof -
  have n: "''U1'' \<noteq> []" "(0::int) < 50" "session_piId demo_session \<noteq> []"
    by (simp_all add: demo_session_facts)
  have f: "fault demo_env LedgerInsert = None \<or> fault demo_env LedgerInsert = Some ''23505''"
    "filter (\<lambda>p. p_id p = ''U1'') (mkt_profiles empty_world) = []
      \<and> (fault demo_env ProfileRead = None \<or> fault demo_env ProfileRead = Some ''PGRST116'')
      \<and> fault demo_env ProfileUpsert = None"
    by (simp_all add: demo_env_def empty_world_def)
  have g: "admin_credits read_fault_env"
    "fault read_fault_env LedgerInsert = None \<or> fault read_fault_env LedgerInsert = Some ''23505''"
    "fault read_fault_env ProfileRead = Some ''57014'' \<and> ''57014'' \<noteq> ''PGRST116''"
    by (simp_all add: read_fault_env_def demo_env_def admin_credits_def truthy_def)
  have w: "mkt_profiles empty_world = []" "calls empty_world = []"
    by (simp_all add: empty_world_def)
  from grantCredits_missing_profile [OF demo_session_facts(1-3) n(1) demo_session_facts(4) n(2,3) f(1),
      of empty_world] f(2)
    grantCredits_missing_profile [OF g(1) demo_session_facts(2,3) n(1) demo_session_facts(4) n(2,3) g(2),
      of empty_world] g(3)
  show ?thesis by (simp add: w blank_profile_def)
qed

subsection \<open>Seller readiness\<close>

lemma in_update_where:
  "p \<in> set (update_where P f rows) \<Longrightarrow> (p \<in> set rows \<and> \<not> P p) \<or> (\<exists>q\<in>set rows. P q \<and> p = f q)"
  by (auto simp: update_where_def split: if_splits)

lemma in_upsert_profile:
  "p \<in> set (upsert_profile uid f rows) \<Longrightarrow> p \<in> set rows \<or> (\<exists>q. p = f q)"
  by (auto simp: upsert_profile_def dest: in_update_where split: if_splits)

lemma upsert_profile_has:
  assumes "\<And>q. p_id (f q) = p_id q"
  shows "\<exists>p\<in>set (upsert_profile uid f rows). p_id p = uid \<and> (\<exists>q. p = f q)"
proof (cases "filter (\<lambda>p. p_id p = uid) rows")
  case Nil
  then show ?thesis
    by (auto simp: upsert_profile_def assms blank_profile_def)
next
  case (Cons r rs)
  then have "r \<in> set (filter (\<lambda>p. p_id p = uid) rows)"
    by simp
  then have "r \<in> set rows" "p_id r = uid"
    by simp_all
  then have "f r \<in> set (update_where (\<lambda>p. p_id p = uid) f rows)"
    by (auto simp: update_where_def image_iff)
  with Cons \<open>p_id r = uid\<close> show ?thesis
    by (auto simp: upsert_profile_def assms intro!: bexI [of _ "f r"])
qed

text \<open>
  C8. The flag computed for an account object is \<open>charges_enabled\<close> and
  \<open>payouts_enabled\<close> and no requirement currently due. After the handler, every profile
  row is either a row that was there before, untouched, or has \<open>stripe_verified\<close> and
  \<open>is_seller\<close> both equal to that flag: no write sets another value. When the store
  carries the update out, every row of the account has both columns equal to the flag,
  and so has the row of the user named in the metadata when the upsert is carried out.
\<close>

theorem markSellerReadiness_flags:
  "verified acct =
     (charges_enabled acct = Some True \<and> payouts_enabled acct = Some True
      \<and> (case currently_due acct of None \<Rightarrow> True | Some ds \<Rightarrow> ds = []))
   \<and> (\<forall>p\<in>set (mkt_profiles (markSellerReadiness e acct w)).
         p \<in> set (mkt_profiles w)
         \<or> (p_stripe_verified p = Some (verified acct) \<and> p_is_seller p = Some (verified acct)))
   \<and> (fault e ReadinessUpdate = None \<longrightarrow>
        (\<forall>p\<in>set (mkt_profiles (markSellerReadiness e acct w)).
           p_stripe_account_id p = Some (obj_id acct) \<longrightarrow>
           p_stripe_verified p = Some (verified acct) \<and> p_is_seller p = Some (verified acct)))
   \<and> (\<forall>uid. md_get acct ''user_id'' = Some uid \<and> uid \<noteq> [] \<and> fault e ReadinessUpsert = None
          \<and> fault e ReadinessUpdate = None \<longrightarrow>
        (\<exists>p\<in>set (mkt_profiles (markSellerReadiness e acct w)).
           p_id p = uid \<and> p_stripe_account_id p = Some (obj_id acct)
           \<and> p_stripe_verified p = Some (verified acct) \<and> p_is_seller p = Some (verified acct)))"
proof (intro conjI)
  show "verified acct =
     (charges_enabled acct = Some True \<and> payouts_enabled acct = Some True
      \<and> (case currently_due acct of None \<Rightarrow> True | Some ds \<Rightarrow> ds = []))"
    by (simp add: verified_def split: option.splits)
next
  show "\<forall>p\<in>set (mkt_profiles (markSellerReadiness e acct w)).
         p \<in> set (mkt_profiles w)
         \<or> (p_stripe_verified p = Some (verified acct) \<and> p_is_seller p = Some (verified acct))"
    by (auto simp: markSellerReadiness_def readiness_upsert_def readiness_update_def logcall_def Let_def
        split: option.splits if_splits dest!: in_update_where in_upsert_profile)
next
  show "fault e ReadinessUpdate = None \<longrightarrow>
        (\<forall>p\<in>set (mkt_profiles (markSellerReadiness e acct w)).
           p_stripe_account_id p = Some (obj_id acct) \<longrightarrow>
           p_stripe_verified p = Some (verified acct) \<and> p_is_seller p = Some (verified acct))"
    by (auto simp: markSellerReadiness_def readiness_upsert_def readiness_update_def logcall_def Let_def
        split: option.splits if_splits dest!: in_update_where)
next
  show "\<forall>uid. md_get acct ''user_id'' = Some uid \<and> uid \<noteq> [] \<and> fault e ReadinessUpsert = None
          \<and> fault e ReadinessUpdate = None \<longrightarrow>
        (\<exists>p\<in>set (mkt_profiles (markSellerReadiness e acct w)).
           p_id p = uid \<and> p_stripe_account_id p = Some (obj_id acct)
           \<and> p_stripe_verified p = Some (verified acct) \<and> p_is_seller p = Some (verified acct))"
  proof (intro allI impI)
    fix uid
    assume a: "md_get acct ''user_id'' = Some uid \<and> uid \<noteq> [] \<and> fault e ReadinessUpsert = None
          \<and> fault e ReadinessUpdate = None"
    let ?v = "verified acct"
    let ?f = "\<lambda>p. p\<lparr>p_email := None, p_stripe_account_id := Some (obj_id acct),
                     p_stripe_verified := Some ?v, p_is_seller := Some ?v\<rparr>"
    let ?g = "\<lambda>p. p\<lparr>p_stripe_verified := Some ?v, p_is_seller := Some ?v\<rparr>"
    let ?rows1 = "upsert_profile uid ?f (mkt_profiles w)"
    have r: "mkt_profiles (markSellerReadiness e acct w) =
        update_where (\<lambda>p. p_stripe_account_id p = Some (obj_id acct)) ?g ?rows1"
      using a by (simp add: markSellerReadiness_def readiness_upsert_def readiness_update_def
          logcall_def Let_def)
    obtain p where p: "p \<in> set ?rows1" "p_id p = uid" "\<exists>q. p = ?f q"
      using upsert_profile_has [of ?f uid "mkt_profiles w"] by auto
    then have "?g p \<in> set (update_where (\<lambda>p. p_stripe_account_id p = Some (obj_id acct)) ?g ?rows1)"
      by (auto simp: update_where_def image_iff intro!: bexI [of _ p])
    with p show "\<exists>p\<in>set (mkt_profiles (markSellerReadiness e acct w)).
           p_id p = uid \<and> p_stripe_account_id p = Some (obj_id acct)
           \<and> p_stripe_verified p = Some (verified acct) \<and> p_is_seller p = Some (verified acct)"
      unfolding r by (auto intro!: bexI [of _ "?g p"])
  qed
qed

lemmas readiness_defs = verified_def readiness_upsert_def readiness_update_def markSellerReadiness_def

theorem markSellerReadiness_flags_witness:
  "verified demo_account
   \<and> mkt_profiles (markSellerReadiness demo_env demo_account empty_world) =
       [\<lparr>p_id = ''U3'', p_email = None, p_stripe_account_id = Some ''acct_1'',
         p_stripe_verified = Some True, p_is_seller = Some True, p_credits = None\<rparr>]
   \<and> \<not> verified (demo_account\<lparr>currently_due := Some [''external_account'']\<rparr>)
   \<and> mkt_profiles (markSellerReadiness demo_env
         (demo_account\<lparr>currently_due := Some [''external_account'']\<rparr>) seller_world) =
       [\<lparr>p_id = ''U3'', p_email = None, p_stripe_account_id = Some ''acct_1'',
         p_stripe_verified = Some False, p_is_seller = Some False, p_credits = Some 7\<rparr>]"
  using markSellerReadiness_flags [of demo_account demo_env empty_world]
    markSellerReadiness_flags [of "demo_account\<lparr>currently_due := Some [''external_account'']\<rparr>"
      demo_env seller_world]
  by (simp add: demo_account_def seller_world_def demo_defs js_defs store_defs readiness_defs)

subsection \<open>Reversals\<close>

lemmas reversal_defs = eq_nullable_def tx_failed_def listing_reset_def markTxFailed_def
  handlePaymentIntentFailed_def charge_piId_def handleChargeRefunded_def

text \<open>
  C9. A refunded charge is reversed with a payment id only, the empty string when the
  charge has no payment-intent reference, and with neither listing id nor buyer id.
  Whatever metadata the charge carries, the handler issues the one update that marks the
  transactions of that payment id failed, and leaves every other table, the listings
  among them, as it was.
\<close>

theorem handleChargeRefunded_frame:
  "handleChargeRefunded e ch w =
     markTxFailed e (case charge_piId ch of None \<Rightarrow> [] | Some s \<Rightarrow> s) None None w
   \<and> (payment_intent ch = None \<longrightarrow> handleChargeRefunded e ch w = markTxFailed e [] None None w)
   \<and> handleChargeRefunded e (ch\<lparr>metadata := m\<rparr>) w = handleChargeRefunded e ch w
   \<and> (handleChargeRefunded e ch w)\<lparr>mkt_transactions := mkt_transactions w, calls := calls w\<rparr> = w
   \<and> mkt_listings (handleChargeRefunded e ch w) = mkt_listings w
   \<and> calls (handleChargeRefunded e ch w) = calls w @ [TxFailed]
   \<and> (fault e TxFailed = None \<longrightarrow>
        mkt_transactions (handleChargeRefunded e ch w) =
          map (\<lambda>t. if t_stripe_payment_id t = Some (case charge_piId ch of None \<Rightarrow> [] | Some s \<Rightarrow> s)
                    then t\<lparr>t_status := ''failed'', t_updated_at := now e\<rparr> else t)
              (mkt_transactions w))"
  by (auto simp: reversal_defs logcall_def update_where_def Let_def split: option.splits pi_ref.splits)

theorem handleChargeRefunded_frame_witness:
  "mkt_listings (handleChargeRefunded demo_env demo_charge sale_world) = mkt_listings sale_world
   \<and> map t_status (mkt_transactions (handleChargeRefunded demo_env demo_charge sale_world)) = [''failed'']
   \<and> handleChargeRefunded demo_env (blank_object ''ch_2'') sale_world =
       markTxFailed demo_env [] None None sale_world"
  using handleChargeRefunded_frame [of demo_env demo_charge sale_world None]
    handleChargeRefunded_frame [of demo_env "blank_object ''ch_2''" sale_world None]
  by (simp add: sale_world_def demo_charge_def demo_defs reversal_defs store_defs)

text \<open>
  C2. A reversal with a listing id and a buyer id \<open>b\<close> resets exactly the listing rows
  with that id whose buyer is \<open>b\<close> (no buyer, status active, active flag set); a row
  with another buyer, or another id, stays as it was. The transactions of the payment id
  are marked failed whatever the listings hold.
\<close>

theorem markTxFailed_listing_guard:
  assumes "lid \<noteq> []"
  shows "mkt_listings (markTxFailed e sid (Some lid) (Some b) w) =
           (if fault e ListingReset = None
            then map (\<lambda>l. if l_id l = lid \<and> l_buyer_id l = Some b
                           then l\<lparr>l_buyer_id := None, l_status := ''active'', l_is_active := True,
                                  l_updated_at := now e\<rparr>
                           else l) (mkt_listings w)
            else mkt_listings w)
       \<and> (\<forall>i<length (mkt_listings w).
             l_id (mkt_listings w ! i) \<noteq> lid \<or> l_buyer_id (mkt_listings w ! i) \<noteq> Some b \<longrightarrow>
             mkt_listings (markTxFailed e sid (Some lid) (Some b) w) ! i = mkt_listings w ! i)
       \<and> mkt_transactions (markTxFailed e sid (Some lid) (Some b) w) =
           (if fault e TxFailed = None
            then map (\<lambda>t. if t_stripe_payment_id t = Some sid
                           then t\<lparr>t_status := ''failed'', t_updated_at := now e\<rparr> else t)
                   (mkt_transactions w)
            else mkt_transactions w)
       \<and> calls (markTxFailed e sid (Some lid) (Some b) w) = calls w @ [TxFailed, ListingReset]"
  using assms
  by (auto simp: reversal_defs logcall_def update_where_def Let_def split: option.splits)

theorem markTxFailed_listing_guard_witness:
  "mkt_listings (markTxFailed demo_env ''pi_1'' (Some ''L1'') (Some ''U2'') sale_world) =
     [\<lparr>l_id = ''L1'', l_source_type = ''asset'', l_source_id = ''A1'', l_buyer_id = None,
       l_status = ''active'', l_is_active = True, l_updated_at = 1000\<rparr>]
   \<and> mkt_listings (markTxFailed demo_env ''pi_1'' (Some ''L1'') (Some ''U9'') sale_world) =
       mkt_listings sale_world
   \<and> map t_status (mkt_transactions (markTxFailed demo_env ''pi_1'' (Some ''L1'') (Some ''U9'') sale_world)) =
       [''failed'']"
proof -
  have n: "''L1'' \<noteq> []" by simp
  show ?thesis
    using markTxFailed_listing_guard [OF n, of demo_env "''pi_1''" "''U2''" sale_world]
      markTxFailed_listing_guard [OF n, of demo_env "''pi_1''" "''U9''" sale_world]
    by (simp add: sale_world_def demo_defs)
qed

subsection \<open>Settlement\<close>

lemmas transfer_defs = listing_fetch_def asset_update_def transferAssetToBuyer_def

lemmas payout_defs = seller_fetch_def payout_insert_def queuePayoutIfPossible_def

lemmas settle_defs = tx_by_stripe_id_def tx_fallback_def complete_transaction_def listing_sold_def

lemmas settlement_defs = netCents_def handlePaymentIntentSucceeded_def settle_defs transfer_defs
  payout_defs

lemmas payment_defs = demo_payment_def provider_env_def sale_world_def

lemma complete_transaction_frame:
  "mkt_payouts (complete_transaction e sid lid bid w) = mkt_payouts w"
  "count_list (calls (complete_transaction e sid lid bid w)) PayoutInsert = count_list (calls w) PayoutInsert"
  by (auto simp: settle_defs logcall_def Let_def split: option.splits)

lemma listing_sold_frame:
  "mkt_payouts (listing_sold e lid bid w) = mkt_payouts w"
  "mkt_transactions (listing_sold e lid bid w) = mkt_transactions w"
  "count_list (calls (listing_sold e lid bid w)) PayoutInsert = count_list (calls w) PayoutInsert"
  "\<exists>rest. calls (listing_sold e lid bid w) = calls w @ rest"
  by (auto simp: settle_defs logcall_def Let_def split: option.splits)

lemma transferAssetToBuyer_frame:
  "mkt_payouts (transferAssetToBuyer e lid bid w) = mkt_payouts w"
  "mkt_transactions (transferAssetToBuyer e lid bid w) = mkt_transactions w"
  "count_list (calls (transferAssetToBuyer e lid bid w)) PayoutInsert = count_list (calls w) PayoutInsert"
  "\<exists>rest. calls (transferAssetToBuyer e lid bid w) = calls w @ rest"
  by (auto simp: transfer_defs logcall_def Let_def split: option.splits prod.splits)

lemma queuePayoutIfPossible_frame:
  "mkt_transactions (queuePayoutIfPossible e lid sellerId n w) = mkt_transactions w"
  "\<exists>rest. calls (queuePayoutIfPossible e lid sellerId n w) = calls w @ rest"
  by (auto simp: payout_defs logcall_def Let_def split: option.splits prod.splits)

lemma queuePayoutIfPossible_skip:
  "\<not> truthy sellerId \<or> n \<le> 0 \<Longrightarrow> queuePayoutIfPossible e lid sellerId (Some n) w = w"
  by (auto simp: queuePayoutIfPossible_def truthy_def split: option.splits)

lemma queuePayoutIfPossible_row:
  "mkt_payouts (queuePayoutIfPossible e lid sellerId (Some n) w) = mkt_payouts w
   \<or> (0 < n \<and> (\<exists>acct. acct \<noteq> [] \<and> mkt_payouts (queuePayoutIfPossible e lid sellerId (Some n) w) =
         mkt_payouts w @
           [\<lparr>po_listing_id = lid, po_stripe_account_id = acct, po_amount_cents = n,
             po_scheduled_at = now e + 600000, po_status = ''pending''\<rparr>]))"
  by (auto simp: payout_defs logcall_def Let_def split: option.splits prod.splits)

lemma handlePaymentIntentSucceeded_settles:
  assumes "retrieve e (obj_id pi) = Some fresh" "status fresh = Some ''succeeded''"
    "md_get fresh ''mkt_listing_id'' = Some lid" "lid \<noteq> []"
    "md_get fresh ''mkt_buyer_id'' = Some bid" "bid \<noteq> []"
  shows "handlePaymentIntentSucceeded e pi w =
     queuePayoutIfPossible e lid (md_get fresh ''mkt_seller_id'') (Some (netCents fresh))
       (transferAssetToBuyer e lid bid
         (listing_sold e lid bid (complete_transaction e (obj_id fresh) lid bid w)))"
  using assms by (simp add: handlePaymentIntentSucceeded_def Let_def)

lemma handlePaymentIntentSucceeded_cases:
  "handlePaymentIntentSucceeded e pi w = w
   \<or> (\<exists>fresh lid bid. retrieve e (obj_id pi) = Some fresh \<and> status fresh = Some ''succeeded''
        \<and> md_get fresh ''mkt_listing_id'' = Some lid \<and> lid \<noteq> []
        \<and> md_get fresh ''mkt_buyer_id'' = Some bid \<and> bid \<noteq> [])"
  by (auto simp: handlePaymentIntentSucceeded_def Let_def split: option.splits)

text \<open>
  C3. The settlement handler acts on the payment as the provider returns it for the
  event's payment id, and on nothing else of the event's object. When the provider's
  status is anything but \<open>succeeded\<close>, or the payment's metadata has no listing id or no
  buyer id, the handler returns the state as it was, call log included: it has issued
  no store call, so no transaction, listing, asset or payout is written.
\<close>

theorem handlePaymentIntentSucceeded_gate:
  "(obj_id pi' = obj_id pi \<longrightarrow>
      handlePaymentIntentSucceeded e pi' w = handlePaymentIntentSucceeded e pi w)
   \<and> (\<forall>fresh. retrieve e (obj_id pi) = Some fresh \<and> status fresh \<noteq> Some ''succeeded'' \<longrightarrow>
         handlePaymentIntentSucceeded e pi w = w)
   \<and> (\<forall>fresh. retrieve e (obj_id pi) = Some fresh
         \<and> (\<not> truthy (md_get fresh ''mkt_listing_id'') \<or> \<not> truthy (md_get fresh ''mkt_buyer_id'')) \<longrightarrow>
         handlePaymentIntentSucceeded e pi w = w)"
  by (auto simp: handlePaymentIntentSucceeded_def truthy_def Let_def split: option.splits)

theorem handlePaymentIntentSucceeded_gate_witness:
  "handlePaymentIntentSucceeded (provider_env (demo_payment\<lparr>status := Some ''requires_payment_method''\<rparr>))
     demo_payment sale_world = sale_world
   \<and> handlePaymentIntentSucceeded
       (provider_env (demo_payment\<lparr>metadata := Some [''mkt_listing_id'' \<mapsto> ''L1'']\<rparr>))
       demo_payment sale_world = sale_world
   \<and> handlePaymentIntentSucceeded (provider_env demo_payment) (blank_object ''pi_1'') sale_world =
       handlePaymentIntentSucceeded (provider_env demo_payment) demo_payment sale_world"
  using handlePaymentIntentSucceeded_gate
      [of "blank_object ''pi_1''" demo_payment
        "provider_env (demo_payment\<lparr>status := Some ''requires_payment_method''\<rparr>)" sale_world]
    handlePaymentIntentSucceeded_gate
      [of "blank_object ''pi_1''" demo_payment
        "provider_env (demo_payment\<lparr>metadata := Some [''mkt_listing_id'' \<mapsto> ''L1'']\<rparr>)" sale_world]
    handlePaymentIntentSucceeded_gate
      [of "blank_object ''pi_1''" demo_payment "provider_env demo_payment" sale_world]
  by (simp add: payment_defs demo_defs js_defs)

text \<open>
  C4. The net amount of every settled payment is \<open>max 0 (a - f)\<close>, where the captured
  amount \<open>a\<close> is \<open>amount_received\<close>, or \<open>amount\<close> when that field is absent, and the
  fee \<open>f\<close> is \<open>application_fee_amount\<close>, or 0 when that field is absent; it is never
  negative, and 0 when the fee reaches the amount. The payout step
  does nothing when the seller id is absent or the net amount is not positive. The
  settlement leaves the payouts as they were or adds one row, of a positive amount equal
  to the net amount; when the net amount is not positive or the seller id is absent it
  adds none and issues no payout insert.
\<close>

theorem payout_net_amount:
  "netCents fresh =
     max 0 ((case amount_received fresh of None \<Rightarrow> amount fresh | Some r \<Rightarrow> r)
            - (case application_fee_amount fresh of None \<Rightarrow> 0 | Some g \<Rightarrow> g))
   \<and> (amount_received fresh = Some a \<and> application_fee_amount fresh = Some f \<longrightarrow>
      netCents fresh = max 0 (a - f) \<and> (a \<le> f \<longrightarrow> netCents fresh = 0))
   \<and> (amount_received fresh = Some a \<and> application_fee_amount fresh = None \<longrightarrow>
      netCents fresh = max 0 a)
   \<and> (amount_received fresh = None \<and> application_fee_amount fresh = Some f \<longrightarrow>
      netCents fresh = max 0 (amount fresh - f) \<and> (amount fresh \<le> f \<longrightarrow> netCents fresh = 0))
   \<and> (amount_received fresh = None \<and> application_fee_amount fresh = None \<longrightarrow>
      netCents fresh = max 0 (amount fresh))
   \<and> 0 \<le> netCents fresh
   \<and> (\<not> truthy sellerId \<or> n \<le> 0 \<longrightarrow> queuePayoutIfPossible e lid sellerId (Some n) w = w)
   \<and> (retrieve e (obj_id pi) = Some fresh \<longrightarrow>
        (mkt_payouts (handlePaymentIntentSucceeded e pi w) = mkt_payouts w
         \<or> (0 < netCents fresh
             \<and> (\<exists>l acct. md_get fresh ''mkt_listing_id'' = Some l
                  \<and> mkt_payouts (handlePaymentIntentSucceeded e pi w) =
                      mkt_payouts w @
                        [\<lparr>po_listing_id = l, po_stripe_account_id = acct,
                          po_amount_cents = netCents fresh, po_scheduled_at = now e + 600000,
                          po_status = ''pending''\<rparr>])))
        \<and> (netCents fresh \<le> 0 \<or> \<not> truthy (md_get fresh ''mkt_seller_id'') \<longrightarrow>
             mkt_payouts (handlePaymentIntentSucceeded e pi w) = mkt_payouts w
             \<and> count_list (calls (handlePaymentIntentSucceeded e pi w)) PayoutInsert =
                 count_list (calls w) PayoutInsert))"
proof (intro conjI impI)
  show "netCents fresh =
     max 0 ((case amount_received fresh of None \<Rightarrow> amount fresh | Some r \<Rightarrow> r)
            - (case application_fee_amount fresh of None \<Rightarrow> 0 | Some g \<Rightarrow> g))"
    by (simp add: netCents_def Let_def)
next
  assume "amount_received fresh = Some a \<and> application_fee_amount fresh = Some f"
  then show "netCents fresh = max 0 (a - f)"
    by (simp add: netCents_def)
next
  assume "amount_received fresh = Some a \<and> application_fee_amount fresh = Some f" "a \<le> f"
  then show "netCents fresh = 0"
    by (simp add: netCents_def)
next
  assume "amount_received fresh = Some a \<and> application_fee_amount fresh = None"
  then show "netCents fresh = max 0 a"
    by (simp add: netCents_def)
next
  assume "amount_received fresh = None \<and> application_fee_amount fresh = Some f"
  then show "netCents fresh = max 0 (amount fresh - f)"
    by (simp add: netCents_def)
next
  assume "amount_received fresh = None \<and> application_fee_amount fresh = Some f" "amount fresh \<le> f"
  then show "netCents fresh = 0"
    by (simp add: netCents_def)
next
  assume "amount_received fresh = None \<and> application_fee_amount fresh = None"
  then show "netCents fresh = max 0 (amount fresh)"
    by (simp add: netCents_def)
next
  show "0 \<le> netCents fresh"
    by (simp add: netCents_def Let_def)
next
  assume "\<not> truthy sellerId \<or> n \<le> 0"
  then show "queuePayoutIfPossible e lid sellerId (Some n) w = w"
    by (rule queuePayoutIfPossible_skip)
next
  assume r: "retrieve e (obj_id pi) = Some fresh"
  show "mkt_payouts (handlePaymentIntentSucceeded e pi w) = mkt_payouts w
         \<or> (0 < netCents fresh
             \<and> (\<exists>l acct. md_get fresh ''mkt_listing_id'' = Some l
                  \<and> mkt_payouts (handlePaymentIntentSucceeded e pi w) =
                      mkt_payouts w @
                        [\<lparr>po_listing_id = l, po_stripe_account_id = acct,
                          po_amount_cents = netCents fresh, po_scheduled_at = now e + 600000,
                          po_status = ''pending''\<rparr>]))"
  proof (cases "handlePaymentIntentSucceeded e pi w = w")
    case True
    then show ?thesis by simp
  next
    case False
    with handlePaymentIntentSucceeded_cases [of e pi w] r
    obtain lid bid where s: "status fresh = Some ''succeeded''"
        "md_get fresh ''mkt_listing_id'' = Some lid" "lid \<noteq> []"
        "md_get fresh ''mkt_buyer_id'' = Some bid" "bid \<noteq> []"
      by auto
    let ?w3 = "transferAssetToBuyer e lid bid
         (listing_sold e lid bid (complete_transaction e (obj_id fresh) lid bid w))"
    have p3: "mkt_payouts ?w3 = mkt_payouts w"
      by (simp add: transferAssetToBuyer_frame listing_sold_frame complete_transaction_frame)
    from queuePayoutIfPossible_row [of e lid "md_get fresh ''mkt_seller_id''" "netCents fresh" ?w3]
    show ?thesis
      unfolding handlePaymentIntentSucceeded_settles [OF r s] p3 using s(2) by auto
  qed
next
  assume r: "retrieve e (obj_id pi) = Some fresh"
    and z: "netCents fresh \<le> 0 \<or> \<not> truthy (md_get fresh ''mkt_seller_id'')"
  have "mkt_payouts (handlePaymentIntentSucceeded e pi w) = mkt_payouts w
    \<and> count_list (calls (handlePaymentIntentSucceeded e pi w)) PayoutInsert =
        count_list (calls w) PayoutInsert"
  proof (cases "handlePaymentIntentSucceeded e pi w = w")
    case True
    then show ?thesis by simp
  next
    case False
    with handlePaymentIntentSucceeded_cases [of e pi w] r
    obtain lid bid where s: "status fresh = Some ''succeeded''"
        "md_get fresh ''mkt_listing_id'' = Some lid" "lid \<noteq> []"
        "md_get fresh ''mkt_buyer_id'' = Some bid" "bid \<noteq> []"
      by auto
    from z have q: "\<not> truthy (md_get fresh ''mkt_seller_id'') \<or> netCents fresh \<le> 0"
      by auto
    show ?thesis
      unfolding handlePaymentIntentSucceeded_settles [OF r s] queuePayoutIfPossible_skip [OF q]
      by (simp add: transferAssetToBuyer_frame listing_sold_frame complete_transaction_frame)
  qed
  then show "mkt_payouts (handlePaymentIntentSucceeded e pi w) = mkt_payouts w"
    and "count_list (calls (handlePaymentIntentSucceeded e pi w)) PayoutInsert =
        count_list (calls w) PayoutInsert"
    by simp_all
qed

lemma payout_examples:
  "netCents demo_payment = 900"
  "mkt_payouts (handlePaymentIntentSucceeded (provider_env demo_payment) demo_payment sale_world) =
     [\<lparr>po_listing_id = ''L1'', po_stripe_account_id = ''acct_1'', po_amount_cents = 900,
       po_scheduled_at = 601000, po_status = ''pending''\<rparr>]"
  "netCents (demo_payment\<lparr>application_fee_amount := Some 1000\<rparr>) = 0"
  "mkt_payouts (handlePaymentIntentSucceeded
       (provider_env (demo_payment\<lparr>application_fee_amount := Some 1000\<rparr>)) demo_payment sale_world) = []"
  "queuePayoutIfPossible demo_env ''L1'' None (Some 900) sale_world = sale_world"
  "netCents (demo_payment\<lparr>amount_received := Some 700, application_fee_amount := None\<rparr>) = 700"
  "mkt_payouts (handlePaymentIntentSucceeded
       (provider_env (demo_payment\<lparr>amount_received := Some 700, application_fee_amount := None\<rparr>))
       demo_payment sale_world) =
     [\<lparr>po_listing_id = ''L1'', po_stripe_account_id = ''acct_1'', po_amount_cents = 700,
       po_scheduled_at = 601000, po_status = ''pending''\<rparr>]"
  "netCents (demo_payment\<lparr>amount_received := None\<rparr>) = 900"
  "netCents (demo_payment\<lparr>amount_received := None, application_fee_amount := None\<rparr>) = 1000"
  by (simp_all add: payment_defs demo_defs js_defs store_defs settlement_defs)

theorem payout_net_amount_witness:
  "netCents demo_payment = 900
   \<and> mkt_payouts (handlePaymentIntentSucceeded (provider_env demo_payment) demo_payment sale_world) =
       [\<lparr>po_listing_id = ''L1'', po_stripe_account_id = ''acct_1'', po_amount_cents = 900,
         po_scheduled_at = 601000, po_status = ''pending''\<rparr>]
   \<and> netCents (demo_payment\<lparr>application_fee_amount := Some 1000\<rparr>) = 0
   \<and> mkt_payouts (handlePaymentIntentSucceeded
         (provider_env (demo_payment\<lparr>application_fee_amount := Some 1000\<rparr>)) demo_payment sale_world) = []
   \<and> queuePayoutIfPossible demo_env ''L1'' None (Some 900) sale_world = sale_world
   \<and> netCents (demo_payment\<lparr>amount_received := Some 700, application_fee_amount := None\<rparr>) = 700
   \<and> mkt_payouts (handlePaymentIntentSucceeded
         (provider_env (demo_payment\<lparr>amount_received := Some 700, application_fee_amount := None\<rparr>))
         demo_payment sale_world) =
       [\<lparr>po_listing_id = ''L1'', po_stripe_account_id = ''acct_1'', po_amount_cents = 700,
         po_scheduled_at = 601000, po_status = ''pending''\<rparr>]
   \<and> netCents (demo_payment\<lparr>amount_received := None\<rparr>) = 900
   \<and> netCents (demo_payment\<lparr>amount_received := None, application_fee_amount := None\<rparr>) = 1000"
proof -
  have f: "amount_received (demo_payment\<lparr>amount_received := Some 700, application_fee_amount := None\<rparr>)
        = Some 700
      \<and> application_fee_amount (demo_payment\<lparr>amount_received := Some 700, application_fee_amount := None\<rparr>)
        = None"
    by simp
  have "netCents (demo_payment\<lparr>amount_received := Some 700, application_fee_amount := None\<rparr>) = max 0 700"
    using payout_net_amount
      [of "demo_payment\<lparr>amount_received := Some 700, application_fee_amount := None\<rparr>" 700 0 None 900
        demo_env "''L1''" sale_world demo_payment] f
    by blast
  moreover have "netCents demo_payment = max 0 (1000 - 100)"
    using payout_net_amount
      [of demo_payment 1000 100 None 900 "provider_env demo_payment" "''L1''" sale_world demo_payment]
    by (simp add: demo_payment_def)
  ultimately show ?thesis
    by (simp add: payout_examples)
qed

lemma complete_transaction_calls:
  "\<exists>rest. calls (complete_transaction e sid lid bid w) = calls w @ rest"
  by (auto simp: settle_defs logcall_def Let_def split: option.splits)

lemma update_where_none:
  "filter P rows = [] \<Longrightarrow> update_where P f rows = rows"
  by (induction rows) (auto simp: update_where_def split: if_splits)

text \<open>
  C7. The settlement first updates the transactions whose payment id is the payment's,
  setting them completed. It issues the second update if and only if the first matched
  no row; that update takes the rows of the listing and the buyer that are pending, sets
  them completed and writes the payment id into them. (A first update that the store
  rejects returns no row, and the second update is issued as well.) The transactions
  after the whole settlement are those after this step, which comes first among the
  handler's store calls.
\<close>

theorem complete_transaction_fallback:
  "(fault e TxByStripeId = None \<longrightarrow>
      (filter (\<lambda>t. t_stripe_payment_id t = Some sid) (mkt_transactions w) \<noteq> [] \<longrightarrow>
         mkt_transactions (complete_transaction e sid lid bid w) =
           map (\<lambda>t. if t_stripe_payment_id t = Some sid
                     then t\<lparr>t_status := ''completed'', t_updated_at := now e\<rparr> else t)
               (mkt_transactions w)
         \<and> calls (complete_transaction e sid lid bid w) = calls w @ [TxByStripeId])
      \<and> (filter (\<lambda>t. t_stripe_payment_id t = Some sid) (mkt_transactions w) = [] \<longrightarrow>
           calls (complete_transaction e sid lid bid w) = calls w @ [TxByStripeId, TxFallback]
           \<and> (fault e TxFallback = None \<longrightarrow>
                mkt_transactions (complete_transaction e sid lid bid w) =
                  map (\<lambda>t. if t_listing_id t = lid \<and> t_buyer_id t = bid \<and> t_status t = ''pending''
                            then t\<lparr>t_status := ''completed'', t_stripe_payment_id := Some sid,
                                   t_updated_at := now e\<rparr>
                            else t)
                      (mkt_transactions w)))
      \<and> (calls (complete_transaction e sid lid bid w) = calls w @ [TxByStripeId, TxFallback]) =
          (filter (\<lambda>t. t_stripe_payment_id t = Some sid) (mkt_transactions w) = []))
   \<and> (fault e TxByStripeId \<noteq> None \<longrightarrow>
        fst (tx_by_stripe_id e sid w) = None
        \<and> calls (complete_transaction e sid lid bid w) = calls w @ [TxByStripeId, TxFallback])
   \<and> (\<forall>fresh. retrieve e (obj_id pi) = Some fresh \<and> status fresh = Some ''succeeded''
         \<and> md_get fresh ''mkt_listing_id'' = Some lid \<and> lid \<noteq> []
         \<and> md_get fresh ''mkt_buyer_id'' = Some bid \<and> bid \<noteq> [] \<longrightarrow>
         mkt_transactions (handlePaymentIntentSucceeded e pi w) =
           mkt_transactions (complete_transaction e (obj_id fresh) lid bid w)
         \<and> (\<exists>rest. calls (handlePaymentIntentSucceeded e pi w) =
               calls (complete_transaction e (obj_id fresh) lid bid w) @ rest))"
proof (intro conjI impI allI)
  assume f: "fault e TxByStripeId = None"
  {
    assume m: "filter (\<lambda>t. t_stripe_payment_id t = Some sid) (mkt_transactions w) \<noteq> []"
    from f m show "mkt_transactions (complete_transaction e sid lid bid w) =
           map (\<lambda>t. if t_stripe_payment_id t = Some sid
                     then t\<lparr>t_status := ''completed'', t_updated_at := now e\<rparr> else t)
               (mkt_transactions w)"
      by (simp add: settle_defs logcall_def update_where_def Let_def)
    from f m show "calls (complete_transaction e sid lid bid w) = calls w @ [TxByStripeId]"
      by (simp add: settle_defs logcall_def Let_def)
  }
  {
    assume z: "filter (\<lambda>t. t_stripe_payment_id t = Some sid) (mkt_transactions w) = []"
    from f z show "calls (complete_transaction e sid lid bid w) = calls w @ [TxByStripeId, TxFallback]"
      by (simp add: settle_defs logcall_def Let_def split: option.splits)
    assume "fault e TxFallback = None"
    with f z show "mkt_transactions (complete_transaction e sid lid bid w) =
                  map (\<lambda>t. if t_listing_id t = lid \<and> t_buyer_id t = bid \<and> t_status t = ''pending''
                            then t\<lparr>t_status := ''completed'', t_stripe_payment_id := Some sid,
                                   t_updated_at := now e\<rparr>
                            else t)
                      (mkt_transactions w)"
      by (simp add: settle_defs logcall_def update_where_none Let_def)
        (simp add: update_where_def)
  }
  from f show "(calls (complete_transaction e sid lid bid w) = calls w @ [TxByStripeId, TxFallback]) =
          (filter (\<lambda>t. t_stripe_payment_id t = Some sid) (mkt_transactions w) = [])"
    by (simp add: settle_defs logcall_def Let_def split: option.splits)
next
  assume "fault e TxByStripeId \<noteq> None"
  then show "fst (tx_by_stripe_id e sid w) = None"
    and "calls (complete_transaction e sid lid bid w) = calls w @ [TxByStripeId, TxFallback]"
    by (auto simp: settle_defs logcall_def Let_def split: option.splits)
next
  fix fresh
  assume a: "retrieve e (obj_id pi) = Some fresh \<and> status fresh = Some ''succeeded''
         \<and> md_get fresh ''mkt_listing_id'' = Some lid \<and> lid \<noteq> []
         \<and> md_get fresh ''mkt_buyer_id'' = Some bid \<and> bid \<noteq> []"
  then have h: "handlePaymentIntentSucceeded e pi w =
     queuePayoutIfPossible e lid (md_get fresh ''mkt_seller_id'') (Some (netCents fresh))
       (transferAssetToBuyer e lid bid
         (listing_sold e lid bid (complete_transaction e (obj_id fresh) lid bid w)))"
    by (simp add: handlePaymentIntentSucceeded_settles)
  show "mkt_transactions (handlePaymentIntentSucceeded e pi w) =
           mkt_transactions (complete_transaction e (obj_id fresh) lid bid w)"
    unfolding h
    by (simp add: queuePayoutIfPossible_frame transferAssetToBuyer_frame listing_sold_frame)
  let ?w1 = "complete_transaction e (obj_id fresh) lid bid w"
  let ?w2 = "listing_sold e lid bid ?w1"
  let ?w3 = "transferAssetToBuyer e lid bid ?w2"
  obtain r2 where r2: "calls ?w2 = calls ?w1 @ r2"
    using listing_sold_frame(4) by blast
  obtain r3 where r3: "calls ?w3 = calls ?w2 @ r3"
    using transferAssetToBuyer_frame(4) by blast
  obtain r4 where r4: "calls (queuePayoutIfPossible e lid (md_get fresh ''mkt_seller_id'')
      (Some (netCents fresh)) ?w3) = calls ?w3 @ r4"
    using queuePayoutIfPossible_frame(2) by blast
  show "\<exists>rest. calls (handlePaymentIntentSucceeded e pi w) =
               calls (complete_transaction e (obj_id fresh) lid bid w) @ rest"
    unfolding h r4 r3 r2 by simp
qed

theorem complete_transaction_fallback_witness:
  "mkt_transactions (complete_transaction demo_env ''pi_1'' ''L1'' ''U2'' sale_world) =
     [\<lparr>t_id = ''T1'', t_stripe_payment_id = Some ''pi_1'', t_listing_id = ''L1'',
       t_buyer_id = ''U2'', t_status = ''completed'', t_updated_at = 1000\<rparr>]
   \<and> calls (complete_transaction demo_env ''pi_1'' ''L1'' ''U2'' sale_world) = [TxByStripeId]
   \<and> mkt_transactions (complete_transaction demo_env ''pi_1'' ''L1'' ''U2'' backfill_world) =
       [\<lparr>t_id = ''T1'', t_stripe_payment_id = Some ''pi_1'', t_listing_id = ''L1'',
         t_buyer_id = ''U2'', t_status = ''completed'', t_updated_at = 1000\<rparr>]
   \<and> calls (complete_transaction demo_env ''pi_1'' ''L1'' ''U2'' backfill_world) =
       [TxByStripeId, TxFallback]
   \<and> mkt_transactions (handlePaymentIntentSucceeded (provider_env demo_payment) demo_payment backfill_world) =
       [\<lparr>t_id = ''T1'', t_stripe_payment_id = Some ''pi_1'', t_listing_id = ''L1'',
         t_buyer_id = ''U2'', t_status = ''completed'', t_updated_at = 1000\<rparr>]"
  using complete_transaction_fallback
      [of demo_env "''pi_1''" sale_world "''L1''" "''U2''" demo_payment]
    complete_transaction_fallback
      [of demo_env "''pi_1''" backfill_world "''L1''" "''U2''" demo_payment]
    complete_transaction_fallback
      [of "provider_env demo_payment" "''pi_1''" backfill_world "''L1''" "''U2''" demo_payment]
  by (simp add: backfill_world_def payment_defs demo_defs js_defs store_defs settlement_defs)

subsection \<open>The endpoints\<close>

lemmas endpoint_defs = sig_header_def try_secret_def verify_event_def microtask_def POST_credits_def
  async_failed_id_def dispatch_def POST_def

lemma dispatch_known:
  "ev_type ev = ''payment_intent.succeeded'' \<Longrightarrow>
     dispatch e ev w = handlePaymentIntentSucceeded e (ev_object ev) w"
  "ev_type ev = ''payment_intent.payment_failed'' \<or> ev_type ev = ''payment_intent.canceled'' \<Longrightarrow>
     dispatch e ev w = handlePaymentIntentFailed e (ev_object ev) w"
  "ev_type ev = ''checkout.session.async_payment_failed'' \<Longrightarrow>
     dispatch e ev w =
       markTxFailed e (async_failed_id (ev_object ev)) (md_get (ev_object ev) ''mkt_listing_id'')
         (md_get (ev_object ev) ''mkt_buyer_id'') w"
  "ev_type ev = ''charge.refunded'' \<Longrightarrow> dispatch e ev w = handleChargeRefunded e (ev_object ev) w"
  "ev_type ev = ''account.updated'' \<or> ev_type ev = ''capability.updated''
     \<or> ev_type ev = ''account.application.authorized'' \<Longrightarrow>
     dispatch e ev w = markSellerReadiness e (ev_object ev) w"
  by (auto simp: dispatch_def Let_def)

lemma dispatch_unknown:
  "ev_type ev \<notin> set dispatch_table \<Longrightarrow> dispatch e ev w = w"
  by (simp add: dispatch_def dispatch_table_def Let_def)

text \<open>
  C5. A secret is tried only when it is set, and trying it is the provider's check of
  the body and the signature against it. Both endpoints answer 500 when neither secret
  is set, and 400 when every secret that is set fails; in both cases the state is
  returned as it was, no store call issued. The event of the primary secret is taken
  when that check succeeds, the event of the secondary secret when the primary is not
  set or fails.
\<close>

theorem verification_order:
  "(\<forall>k. s = Some k \<and> k \<noteq> [] \<longrightarrow>
      try_secret e req s = constructEvent e (rawBody req) (sig_header req) k)
   \<and> (\<not> truthy s \<longrightarrow> try_secret e req s = None)
   \<and> (\<not> truthy (STRIPE_WEBHOOK_SECRET e) \<and> \<not> truthy (STRIPE_CONNECT_WEBHOOK_SECRET e) \<longrightarrow>
        POST e req w = (Text 500 ''webhook secret missing'', w))
   \<and> ((truthy (STRIPE_WEBHOOK_SECRET e) \<or> truthy (STRIPE_CONNECT_WEBHOOK_SECRET e))
        \<and> try_secret e req (STRIPE_WEBHOOK_SECRET e) = None
        \<and> try_secret e req (STRIPE_CONNECT_WEBHOOK_SECRET e) = None \<longrightarrow>
        POST e req w = (Text 400 ''bad sig'', w))
   \<and> (\<forall>ev. try_secret e req (STRIPE_WEBHOOK_SECRET e) = Some ev \<longrightarrow>
        POST e req w = (Json_received_true, dispatch e ev w))
   \<and> (\<forall>ev. try_secret e req (STRIPE_WEBHOOK_SECRET e) = None
          \<and> try_secret e req (STRIPE_CONNECT_WEBHOOK_SECRET e) = Some ev \<longrightarrow>
        POST e req w = (Json_received_true, dispatch e ev w))
   \<and> (\<not> truthy (STRIPE_CREDITS_WEBHOOK_SECRET e) \<and> \<not> truthy (STRIPE_CREDITS_CONNECT_SECRET e) \<longrightarrow>
        POST_credits e req w = (Text 500 ''no secret'', w))
   \<and> ((truthy (STRIPE_CREDITS_WEBHOOK_SECRET e) \<or> truthy (STRIPE_CREDITS_CONNECT_SECRET e))
        \<and> try_secret e req (STRIPE_CREDITS_WEBHOOK_SECRET e) = None
        \<and> try_secret e req (STRIPE_CREDITS_CONNECT_SECRET e) = None \<longrightarrow>
        POST_credits e req w = (Text 400 ''bad sig'', w))
   \<and> (\<forall>ev. try_secret e req (STRIPE_CREDITS_WEBHOOK_SECRET e) = Some ev \<longrightarrow>
        POST_credits e req w = (Json_received_true, microtask e ev w))
   \<and> (\<forall>ev. try_secret e req (STRIPE_CREDITS_WEBHOOK_SECRET e) = None
          \<and> try_secret e req (STRIPE_CREDITS_CONNECT_SECRET e) = Some ev \<longrightarrow>
        POST_credits e req w = (Json_received_true, microtask e ev w))"
  by (auto simp: POST_def POST_credits_def verify_event_def try_secret_def truthy_def Let_def
      split: option.splits if_splits)

theorem verification_order_witness:
  "POST demo_env (signed_request ''charge.refunded'') sale_world =
     (Text 500 ''webhook secret missing'', sale_world)
   \<and> POST_credits demo_env (signed_request ''charge.refunded'') sale_world =
       (Text 500 ''no secret'', sale_world)
   \<and> POST signing_env \<lparr>rawBody = ''charge.refunded'', stripe_signature = None\<rparr> sale_world =
       (Text 400 ''bad sig'', sale_world)
   \<and> POST_credits signing_env \<lparr>rawBody = ''charge.refunded'', stripe_signature = Some ''t=1,v1=bad''\<rparr>
       sale_world = (Text 400 ''bad sig'', sale_world)
   \<and> fst (POST signing_env (signed_request ''charge.refunded'') sale_world) = Json_received_true
   \<and> map t_status (mkt_transactions (snd (POST signing_env (signed_request ''charge.refunded'') sale_world))) =
       [''failed'']
   \<and> fst (POST_credits signing_env (signed_request ''charge.refunded'') sale_world) = Json_received_true"
  using verification_order [of "Some ''whsec_connect''" demo_env "signed_request ''charge.refunded''" sale_world]
    verification_order [of "Some ''whsec_connect''" signing_env
      "\<lparr>rawBody = ''charge.refunded'', stripe_signature = None\<rparr>" sale_world]
    verification_order [of "Some ''whsec_connect''" signing_env
      "\<lparr>rawBody = ''charge.refunded'', stripe_signature = Some ''t=1,v1=bad''\<rparr>" sale_world]
    verification_order [of "Some ''whsec_connect''" signing_env "signed_request ''charge.refunded''" sale_world]
  by (simp add: signing_env_def signed_request_def demo_charge_def sale_world_def demo_defs js_defs
      store_defs endpoint_defs reversal_defs)

text \<open>
  C6. When the event an endpoint has verified has a type that is not in its dispatch
  table (the eight types of the sale endpoint's \<open>switch\<close>; the one type
  \<open>checkout.session.completed\<close> of the credits endpoint), the endpoint answers with the
  JSON acknowledgment and returns the state as it was: no handler has run and no store
  call has been issued.
\<close>

theorem unrecognised_event_ack:
  "(verify_event e req (STRIPE_WEBHOOK_SECRET e) (STRIPE_CONNECT_WEBHOOK_SECRET e) = Inr ev
      \<and> ev_type ev \<notin> set dispatch_table \<longrightarrow>
      POST e req w = (Json_received_true, w))
   \<and> (ev_type ev \<notin> set dispatch_table \<longrightarrow> dispatch e ev w = w)
   \<and> (verify_event e req (STRIPE_CREDITS_WEBHOOK_SECRET e) (STRIPE_CREDITS_CONNECT_SECRET e) = Inr ev
        \<and> ev_type ev \<noteq> ''checkout.session.completed'' \<longrightarrow>
        POST_credits e req w = (Json_received_true, w))
   \<and> (ev_type ev \<noteq> ''checkout.session.completed'' \<longrightarrow> microtask e ev w = w)"
proof (intro conjI impI)
  assume a: "verify_event e req (STRIPE_WEBHOOK_SECRET e) (STRIPE_CONNECT_WEBHOOK_SECRET e) = Inr ev
      \<and> ev_type ev \<notin> set dispatch_table"
  then have "truthy (STRIPE_WEBHOOK_SECRET e) \<or> truthy (STRIPE_CONNECT_WEBHOOK_SECRET e)"
    by (auto simp: verify_event_def try_secret_def truthy_def split: option.splits if_splits)
  with a show "POST e req w = (Json_received_true, w)"
    by (auto simp: POST_def dispatch_unknown)
next
  assume "ev_type ev \<notin> set dispatch_table"
  then show "dispatch e ev w = w"
    by (rule dispatch_unknown)
next
  assume a: "verify_event e req (STRIPE_CREDITS_WEBHOOK_SECRET e) (STRIPE_CREDITS_CONNECT_SECRET e) = Inr ev
        \<and> ev_type ev \<noteq> ''checkout.session.completed''"
  then have "truthy (STRIPE_CREDITS_WEBHOOK_SECRET e) \<or> truthy (STRIPE_CREDITS_CONNECT_SECRET e)"
    by (auto simp: verify_event_def try_secret_def truthy_def split: option.splits if_splits)
  with a show "POST_credits e req w = (Json_received_true, w)"
    by (auto simp: POST_credits_def microtask_def)
next
  assume "ev_type ev \<noteq> ''checkout.session.completed''"
  then show "microtask e ev w = w"
    by (simp add: microtask_def)
qed

theorem unrecognised_event_ack_witness:
  "POST signing_env (signed_request ''customer.created'') sale_world = (Json_received_true, sale_world)
   \<and> POST_credits signing_env (signed_request ''customer.created'') sale_world =
       (Json_received_true, sale_world)"
  using unrecognised_event_ack
      [of signing_env "signed_request ''customer.created''"
        "\<lparr>ev_type = ''customer.created'', ev_object = demo_charge\<rparr>" sale_world]
  by (simp add: signing_env_def signed_request_def demo_charge_def sale_world_def demo_defs js_defs
      endpoint_defs dispatch_table_def)

end
